theory Spec2Isabelle
  imports Main "HOL-Library.Word" "HOL-Library.Sublist"
begin

unbundle bit_operations_syntax

section \<open>Native handles\<close>

text \<open>
  Every native object of the windowing and EGL libraries (a \<^verbatim>\<open>wl_callback*\<close>, an
  \<^verbatim>\<open>EGLContext\<close>, ...) is an opaque pointer in the source. A handle is modelled by a
  natural number; the null pointer, \<^verbatim>\<open>EGL_NO_CONTEXT\<close> and \<^verbatim>\<open>EGL_NO_SURFACE\<close> are 0.
\<close>

type_synonym handle = nat

definition nullptr :: handle where
  "nullptr = 0"

definition EGL_NO_CONTEXT :: handle where
  "EGL_NO_CONTEXT = 0"

definition EGL_NO_SURFACE :: handle where
  "EGL_NO_SURFACE = 0"

section \<open>Egl (egl.h, egl.cc)\<close>

subsection \<open>The object and the EGL thread state\<close>

text \<open>
  The fields of class \<^verbatim>\<open>Egl\<close>, with the initialisers of the header (a member
  \<^verbatim>\<open>m_\<close> of a class \<^verbatim>\<open>C\<close> is named \<open>C_m\<close> throughout, since an identifier cannot end
  with an underscore here):
  every handle starts null and \<^verbatim>\<open>buffer_size_ = 24\<close>. \<^verbatim>\<open>EGLint\<close> values are only
  compared, never computed with, so they are modelled by their integer value.
\<close>

record Egl =
  Egl_egl_surface :: handle
  Egl_config :: handle
  Egl_texture_context :: handle
  Egl_buffer_size :: int
  Egl_dpy :: handle
  Egl_context :: handle
  Egl_resource_context :: handle
  Egl_major :: int
  Egl_minor :: int
  Egl_pfSwapBufferWithDamage :: handle
  Egl_pfSetDamageRegion :: handle
  Egl_has_egl_ext_buffer_age :: bool

definition Egl_fields_init :: Egl where
  "Egl_fields_init =
     \<lparr> Egl_egl_surface = nullptr, Egl_config = nullptr, Egl_texture_context = nullptr,
       Egl_buffer_size = 24, Egl_dpy = nullptr, Egl_context = nullptr,
       Egl_resource_context = nullptr, Egl_major = 0, Egl_minor = 0,
       Egl_pfSwapBufferWithDamage = nullptr, Egl_pfSetDamageRegion = nullptr,
       Egl_has_egl_ext_buffer_age = False \<rparr>"

text \<open>
  What the EGL library keeps for the calling thread: the context that
  \<^verbatim>\<open>eglGetCurrentContext\<close> returns, and a log of the calls that reached the library
  (the arguments display, draw surface, read surface, context of every
  \<^verbatim>\<open>eglMakeCurrent\<close>, and display, surface of every \<^verbatim>\<open>eglSwapBuffers\<close>), which is
  what a test double counting invocations would record.
\<close>

record egl_thread =
  current_context :: handle
  make_current_calls :: "(handle \<times> handle \<times> handle \<times> handle) list"
  swap_buffers_calls :: "(handle \<times> handle) list"

definition eglGetCurrentContext :: "egl_thread \<Rightarrow> handle" where
  "eglGetCurrentContext t = current_context t"

text \<open>
  \<^verbatim>\<open>eglMakeCurrent\<close> can fail (\<^verbatim>\<open>EGL_FALSE\<close>); then the current context is left as it
  was. Whether the driver accepts the call is not decided by the program, so the
  answer \<open>ok\<close> is an argument. The function returns the \<^verbatim>\<open>EGLBoolean\<close> with the new
  thread state.
\<close>

definition eglMakeCurrent ::
  "bool \<Rightarrow> handle \<Rightarrow> handle \<Rightarrow> handle \<Rightarrow> handle \<Rightarrow> egl_thread \<Rightarrow> bool \<times> egl_thread" where
  "eglMakeCurrent ok dpy draw read ctx t =
     (ok, t\<lparr> current_context := (if ok then ctx else current_context t),
             make_current_calls := make_current_calls t @ [(dpy, draw, read, ctx)] \<rparr>)"

definition eglSwapBuffers :: "bool \<Rightarrow> handle \<Rightarrow> handle \<Rightarrow> egl_thread \<Rightarrow> bool \<times> egl_thread" where
  "eglSwapBuffers ok dpy surface t =
     (ok, t\<lparr> swap_buffers_calls := swap_buffers_calls t @ [(dpy, surface)] \<rparr>)"

subsection \<open>The five boolean operations\<close>

text \<open>
  Each operation is translated statement by statement. The \<^verbatim>\<open>EGLBoolean\<close> of the
  library call is dropped by the source, and the literal \<^verbatim>\<open>true\<close> is returned. The
  first argument \<open>ok\<close> is the driver's answer, should the library be called.
\<close>

definition make_current :: "bool \<Rightarrow> Egl \<Rightarrow> egl_thread \<Rightarrow> bool \<times> egl_thread" where
  "make_current ok e t =
     (if eglGetCurrentContext t \<noteq> Egl_context e
      then (True, snd (eglMakeCurrent ok (Egl_dpy e) (Egl_egl_surface e) (Egl_egl_surface e) (Egl_context e) t))
      else (True, t))"

definition clear_current :: "bool \<Rightarrow> Egl \<Rightarrow> egl_thread \<Rightarrow> bool \<times> egl_thread" where
  "clear_current ok e t =
     (if eglGetCurrentContext t \<noteq> EGL_NO_CONTEXT
      then (True, snd (eglMakeCurrent ok (Egl_dpy e) EGL_NO_SURFACE EGL_NO_SURFACE EGL_NO_CONTEXT t))
      else (True, t))"

definition swap_buffers :: "bool \<Rightarrow> Egl \<Rightarrow> egl_thread \<Rightarrow> bool \<times> egl_thread" where
  "swap_buffers ok e t = (True, snd (eglSwapBuffers ok (Egl_dpy e) (Egl_egl_surface e) t))"

text \<open>The test of \<^verbatim>\<open>make_resource_current\<close> reads \<^verbatim>\<open>context_\<close>, as the source does.\<close>

definition make_resource_current :: "bool \<Rightarrow> Egl \<Rightarrow> egl_thread \<Rightarrow> bool \<times> egl_thread" where
  "make_resource_current ok e t =
     (if eglGetCurrentContext t \<noteq> Egl_context e
      then (True, snd (eglMakeCurrent ok (Egl_dpy e) EGL_NO_SURFACE EGL_NO_SURFACE (Egl_resource_context e) t))
      else (True, t))"

definition make_texture_current :: "bool \<Rightarrow> Egl \<Rightarrow> egl_thread \<Rightarrow> bool \<times> egl_thread" where
  "make_texture_current ok e t =
     (if eglGetCurrentContext t \<noteq> Egl_texture_context e
      then (True, snd (eglMakeCurrent ok (Egl_dpy e) EGL_NO_SURFACE EGL_NO_SURFACE (Egl_texture_context e) t))
      else (True, t))"

text \<open>The number of context switches that reached the library.\<close>

definition switches :: "egl_thread \<Rightarrow> nat" where
  "switches t = length (make_current_calls t)"

subsection \<open>Construction\<close>

text \<open>
  The constructor throws \<^verbatim>\<open>std::runtime_error\<close> with a message; nothing else is thrown.
\<close>

datatype egl_error = runtime_error string

text \<open>
  One config as \<^verbatim>\<open>eglChooseConfig\<close> returns it: its handle, and what
  \<^verbatim>\<open>eglGetConfigAttrib(dpy_, config, EGL_BUFFER_SIZE, &size)\<close> answers for it
  (\<open>None\<close> for \<^verbatim>\<open>EGL_FALSE\<close>, otherwise the size written).
\<close>

record egl_config =
  cfg_handle :: handle
  cfg_buffer_size :: "int option"

text \<open>
  The answers of the EGL implementation to the calls of the constructor, in the order
  of the calls. \<open>drv_eglChooseConfig\<close> holds the \<^verbatim>\<open>n\<close> configs written into the array
  (\<open>None\<close> for \<^verbatim>\<open>EGL_FALSE\<close>); \<open>drv_eglCreateContext\<close> holds the results of the three
  calls of \<^verbatim>\<open>eglCreateContext\<close>, each \<open>EGL_NO_CONTEXT\<close> when the call fails.
\<close>

record egl_driver =
  drv_eglGetDisplay :: handle
  drv_eglInitialize :: "(int \<times> int) option"
  drv_eglBindAPI :: bool
  drv_eglGetConfigs :: "int option"
  drv_eglChooseConfig :: "egl_config list option"
  drv_eglCreateContext :: "handle \<times> handle \<times> handle"
  drv_make_current_ok :: bool
  drv_eglQueryString :: string
  drv_eglGetProcAddress :: "string \<Rightarrow> handle"
  drv_clear_current_ok :: bool

text \<open>
  The loop over the configs: \<open>cfg\<close> is the value of \<^verbatim>\<open>config_\<close> so far, which the loop
  leaves as it is when no config is accepted.
\<close>

fun select_config :: "int \<Rightarrow> egl_config list \<Rightarrow> handle \<Rightarrow> egl_error + handle" where
  "select_config bs [] cfg = Inr cfg"
| "select_config bs (c # cs) cfg =
     (case cfg_buffer_size c of
        None \<Rightarrow> Inl (runtime_error ''eglGetConfigAttrib failed'')
      | Some sz \<Rightarrow> if bs \<le> sz then Inr (cfg_handle c) else select_config bs cs cfg)"

text \<open>
  \<^verbatim>\<open>strstr\<close>: the suffix of the haystack that starts at the first occurrence of the
  needle, \<open>None\<close> for the null pointer.
\<close>

fun strstr :: "string \<Rightarrow> string \<Rightarrow> string option" where
  "strstr [] needle = (if needle = [] then Some [] else None)"
| "strstr (h # hs) needle =
     (if prefix needle (h # hs) then Some (h # hs) else strstr hs needle)"

definition has_egl_extension :: "string \<Rightarrow> string \<Rightarrow> bool" where
  "has_egl_extension extensions name =
     (case strstr extensions name of
        None \<Rightarrow> False
      | Some r \<Rightarrow> (case drop (length name) r of [] \<Rightarrow> True | c # _ \<Rightarrow> c = CHR '' ''))"

text \<open>
  The part of the constructor after the three contexts exist: the first
  \<^verbatim>\<open>make_current\<close>, the extension queries and the final \<^verbatim>\<open>clear_current\<close>.
  (\<^verbatim>\<open>egl_khr_debug_init\<close> only installs a logging callback and is left out.)
\<close>

definition Egl_ctor_extensions :: "egl_driver \<Rightarrow> Egl \<Rightarrow> egl_thread \<Rightarrow> Egl \<times> egl_thread" where
  "Egl_ctor_extensions d e t =
     (let t1 = snd (make_current (drv_make_current_ok d) e t);
          extensions = drv_eglQueryString d;
          e1 = (if has_egl_extension extensions ''EGL_EXT_swap_buffers_with_damage''
                then e\<lparr>Egl_pfSwapBufferWithDamage :=
                         drv_eglGetProcAddress d ''eglSwapBuffersWithDamageEXT''\<rparr>
                else if has_egl_extension extensions ''EGL_KHR_swap_buffers_with_damage''
                then e\<lparr>Egl_pfSwapBufferWithDamage :=
                         drv_eglGetProcAddress d ''eglSwapBuffersWithDamageKHR''\<rparr>
                else e);
          e2 = (if has_egl_extension extensions ''EGL_KHR_partial_update''
                then e1\<lparr>Egl_pfSetDamageRegion :=
                          drv_eglGetProcAddress d ''eglSetDamageRegionKHR''\<rparr>
                else e1);
          e3 = e2\<lparr>Egl_has_egl_ext_buffer_age :=
                    has_egl_extension extensions ''EGL_EXT_buffer_age''\<rparr>;
          t2 = snd (clear_current (drv_clear_current_ok d) e3 t1)
      in (e3, t2))"

text \<open>
  The three contexts: the result of \<^verbatim>\<open>eglCreateContext\<close> is stored as it comes; the
  source does not compare it with \<^verbatim>\<open>EGL_NO_CONTEXT\<close>.
\<close>

definition Egl_ctor_contexts :: "egl_driver \<Rightarrow> Egl \<Rightarrow> Egl" where
  "Egl_ctor_contexts d e =
     (case drv_eglCreateContext d of
        (c, rc, tc) \<Rightarrow>
          e\<lparr>Egl_context := c, Egl_resource_context := rc, Egl_texture_context := tc\<rparr>)"

definition Egl_ctor :: "egl_driver \<Rightarrow> egl_thread \<Rightarrow> egl_error + (Egl \<times> egl_thread)" where
  "Egl_ctor d t =
     (let e = Egl_fields_init\<lparr>Egl_dpy := drv_eglGetDisplay d\<rparr> in
      (case drv_eglInitialize d of
         None \<Rightarrow> Inl (runtime_error ''eglInitialize failed.'')
       | Some (mj, mn) \<Rightarrow>
          (let e = e\<lparr>Egl_major := mj, Egl_minor := mn\<rparr> in
           if \<not> drv_eglBindAPI d then Inl (runtime_error ''eglBindAPI failed.'')
           else
            (case drv_eglGetConfigs d of
               None \<Rightarrow> Inl (runtime_error ''eglGetConfigs failed.'')
             | Some count \<Rightarrow>
                (case drv_eglChooseConfig d of
                   None \<Rightarrow> Inl (runtime_error ''eglChooseConfig failed'')
                 | Some configs \<Rightarrow>
                    (case select_config (Egl_buffer_size e) configs (Egl_config e) of
                       Inl err \<Rightarrow> Inl err
                     | Inr cfg \<Rightarrow>
                         Inr (Egl_ctor_extensions d
                                (Egl_ctor_contexts d (e\<lparr>Egl_config := cfg\<rparr>)) t)))))))"

section \<open>Seat (seat.h, seat.cc) and its device handlers (keyboard.cc, pointer.cc, touch.cc)\<close>

text \<open>
  The capability bits of \<^verbatim>\<open>enum wl_seat_capability\<close> in the protocol header of the
  windowing library.
\<close>

definition WL_SEAT_CAPABILITY_POINTER :: "32 word" where
  "WL_SEAT_CAPABILITY_POINTER = 1"

definition WL_SEAT_CAPABILITY_KEYBOARD :: "32 word" where
  "WL_SEAT_CAPABILITY_KEYBOARD = 2"

definition WL_SEAT_CAPABILITY_TOUCH :: "32 word" where
  "WL_SEAT_CAPABILITY_TOUCH = 4"

datatype device = Pointer | Keyboard | Touch

text \<open>
  A \<^verbatim>\<open>std::unique_ptr\<close> member is an option: \<open>None\<close> when empty, \<open>Some h\<close> when it
  owns the handler object built around the native device proxy \<open>h\<close>.
\<close>

record Seat =
  Seat_wl_seat :: handle
  Seat_wl_shm :: handle
  Seat_wl_compositor :: handle
  Seat_enable_cursor :: bool
  Seat_version :: "32 word"
  Seat_capabilities :: "32 word"
  Seat_name :: string
  Seat_keyboard :: "handle option"
  Seat_pointer :: "handle option"
  Seat_touch :: "handle option"

text \<open>
  The handler objects live on the heap, and each wraps one proxy of the windowing
  library. \<open>seat_live\<close> lists the handler objects that have been constructed and not
  destroyed, each with its kind; \<open>seat_proxies\<close> lists the device proxies
  (\<^verbatim>\<open>wl_pointer\<close>, \<^verbatim>\<open>wl_keyboard\<close>, \<^verbatim>\<open>wl_touch\<close>) that exist in the library;
  \<open>seat_next\<close> is the handle that the next \<^verbatim>\<open>wl_seat_get_pointer\<close>,
  \<^verbatim>\<open>wl_seat_get_keyboard\<close> or \<^verbatim>\<open>wl_seat_get_touch\<close> returns.
\<close>

record seat_heap =
  seat_live :: "(device \<times> handle) list"
  seat_proxies :: "handle list"
  seat_next :: handle

text \<open>
  \<^verbatim>\<open>wl_pointer_release\<close>, \<^verbatim>\<open>wl_keyboard_release\<close> and \<^verbatim>\<open>wl_touch_release\<close> are the
  destructor requests of the protocol: each sends \<^verbatim>\<open>release\<close> and frees the proxy.
  \<^verbatim>\<open>wl_pointer_destroy\<close>, \<^verbatim>\<open>wl_keyboard_destroy\<close> and \<^verbatim>\<open>wl_touch_destroy\<close> free the
  proxy without a request. Either of them, called on a pointer whose proxy is already
  freed, reads and frees released memory; the model stops there with an error.
\<close>

datatype seat_error = Destroy_of_freed_proxy device handle

definition wl_device_release :: "device \<Rightarrow> handle \<Rightarrow> seat_heap \<Rightarrow> seat_error + seat_heap" where
  "wl_device_release dev p h =
     (if p \<in> set (seat_proxies h)
      then Inr (h\<lparr>seat_proxies := removeAll p (seat_proxies h)\<rparr>)
      else Inl (Destroy_of_freed_proxy dev p))"

definition wl_device_destroy :: "device \<Rightarrow> handle \<Rightarrow> seat_heap \<Rightarrow> seat_error + seat_heap" where
  "wl_device_destroy dev p h =
     (if p \<in> set (seat_proxies h)
      then Inr (h\<lparr>seat_proxies := removeAll p (seat_proxies h)\<rparr>)
      else Inl (Destroy_of_freed_proxy dev p))"

text \<open>
  The destructors \<^verbatim>\<open>~Pointer\<close>, \<^verbatim>\<open>~Keyboard\<close> and \<^verbatim>\<open>~Touch\<close>: each calls the release
  and then the destroy function on the proxy it wraps. (\<^verbatim>\<open>~Pointer\<close> resets its Cursor
  first, which destroys the cursor theme and the cursor surface and leaves the
  \<^verbatim>\<open>wl_pointer\<close> proxy alone.)
\<close>

definition handler_dtor :: "device \<Rightarrow> handle \<Rightarrow> seat_heap \<Rightarrow> seat_error + seat_heap" where
  "handler_dtor dev p h =
     (case wl_device_release dev p h of
        Inl err \<Rightarrow> Inl err
      | Inr h1 \<Rightarrow> wl_device_destroy dev p h1)"

text \<open>
  \<open>construct\<close> is \<^verbatim>\<open>std::make_unique<...>(wl_seat_get_...(seat), ...)\<close>: a new proxy
  (the library is taken to have the memory for it) and a new handler object around
  it; the constructors add a listener to the proxy, and the one of Pointer also builds
  its Cursor. \<open>destroy\<close> is what \<^verbatim>\<open>reset()\<close> does to the object owned: it runs the
  destructor and frees the object.
\<close>

definition construct :: "device \<Rightarrow> seat_heap \<Rightarrow> handle \<times> seat_heap" where
  "construct dev h =
     (seat_next h, h\<lparr>seat_live := seat_live h @ [(dev, seat_next h)],
                     seat_proxies := seat_proxies h @ [seat_next h],
                     seat_next := Suc (seat_next h)\<rparr>)"

definition destroy :: "device \<Rightarrow> handle \<Rightarrow> seat_heap \<Rightarrow> seat_error + seat_heap" where
  "destroy dev p h =
     (case handler_dtor dev p h of
        Inl err \<Rightarrow> Inl err
      | Inr h1 \<Rightarrow> Inr (h1\<lparr>seat_live := remove1 (dev, p) (seat_live h1)\<rparr>))"

definition Seat_ctor :: "handle \<Rightarrow> handle \<Rightarrow> handle \<Rightarrow> bool \<Rightarrow> 32 word \<Rightarrow> Seat" where
  "Seat_ctor seat shm compositor enable_cursor version =
     \<lparr> Seat_wl_seat = seat, Seat_wl_shm = shm, Seat_wl_compositor = compositor,
       Seat_enable_cursor = enable_cursor, Seat_version = version,
       Seat_capabilities = 0, Seat_name = [],
       Seat_keyboard = None, Seat_pointer = None, Seat_touch = None \<rparr>"

text \<open>The three \<^verbatim>\<open>if\<close> / \<^verbatim>\<open>else if\<close> blocks of \<^verbatim>\<open>handle_capabilities\<close>, in order.\<close>

definition handle_pointer_capability ::
  "32 word \<Rightarrow> Seat \<times> seat_heap \<Rightarrow> seat_error + (Seat \<times> seat_heap)" where
  "handle_pointer_capability caps = (\<lambda>(obj, h).
     if caps AND WL_SEAT_CAPABILITY_POINTER \<noteq> 0 \<and> Seat_pointer obj = None
     then (case construct Pointer h of (p, h') \<Rightarrow> Inr (obj\<lparr>Seat_pointer := Some p\<rparr>, h'))
     else if \<not> (caps AND WL_SEAT_CAPABILITY_POINTER \<noteq> 0) \<and> Seat_pointer obj \<noteq> None
     then (case destroy Pointer (the (Seat_pointer obj)) h of
             Inl err \<Rightarrow> Inl err
           | Inr h' \<Rightarrow> Inr (obj\<lparr>Seat_pointer := None\<rparr>, h'))
     else Inr (obj, h))"

definition handle_keyboard_capability ::
  "32 word \<Rightarrow> Seat \<times> seat_heap \<Rightarrow> seat_error + (Seat \<times> seat_heap)" where
  "handle_keyboard_capability caps = (\<lambda>(obj, h).
     if caps AND WL_SEAT_CAPABILITY_KEYBOARD \<noteq> 0 \<and> Seat_keyboard obj = None
     then (case construct Keyboard h of (p, h') \<Rightarrow> Inr (obj\<lparr>Seat_keyboard := Some p\<rparr>, h'))
     else if \<not> (caps AND WL_SEAT_CAPABILITY_KEYBOARD \<noteq> 0) \<and> Seat_keyboard obj \<noteq> None
     then (case destroy Keyboard (the (Seat_keyboard obj)) h of
             Inl err \<Rightarrow> Inl err
           | Inr h' \<Rightarrow> Inr (obj\<lparr>Seat_keyboard := None\<rparr>, h'))
     else Inr (obj, h))"

definition handle_touch_capability ::
  "32 word \<Rightarrow> Seat \<times> seat_heap \<Rightarrow> seat_error + (Seat \<times> seat_heap)" where
  "handle_touch_capability caps = (\<lambda>(obj, h).
     if caps AND WL_SEAT_CAPABILITY_TOUCH \<noteq> 0 \<and> Seat_touch obj = None
     then (case construct Touch h of (p, h') \<Rightarrow> Inr (obj\<lparr>Seat_touch := Some p\<rparr>, h'))
     else if \<not> (caps AND WL_SEAT_CAPABILITY_TOUCH \<noteq> 0) \<and> Seat_touch obj \<noteq> None
     then (case destroy Touch (the (Seat_touch obj)) h of
             Inl err \<Rightarrow> Inl err
           | Inr h' \<Rightarrow> Inr (obj\<lparr>Seat_touch := None\<rparr>, h'))
     else Inr (obj, h))"

definition handle_capabilities ::
  "32 word \<Rightarrow> Seat \<times> seat_heap \<Rightarrow> seat_error + (Seat \<times> seat_heap)" where
  "handle_capabilities caps = (\<lambda>(obj, h).
     case handle_pointer_capability caps (obj\<lparr>Seat_capabilities := caps\<rparr>, h) of
       Inl err \<Rightarrow> Inl err
     | Inr s1 \<Rightarrow>
         (case handle_keyboard_capability caps s1 of
            Inl err \<Rightarrow> Inl err
          | Inr s2 \<Rightarrow> handle_touch_capability caps s2))"

definition handle_name :: "string \<Rightarrow> Seat \<Rightarrow> Seat" where
  "handle_name name obj = obj\<lparr>Seat_name := name\<rparr>"

text \<open>
  A sequence of capability notifications, delivered in order; the delivery stops at
  the first error.
\<close>

fun deliver_capabilities ::
  "32 word list \<Rightarrow> Seat \<times> seat_heap \<Rightarrow> seat_error + (Seat \<times> seat_heap)" where
  "deliver_capabilities [] s = Inr s"
| "deliver_capabilities (caps # rest) s =
     (case handle_capabilities caps s of
        Inl err \<Rightarrow> Inl err
      | Inr s' \<Rightarrow> deliver_capabilities rest s')"

text \<open>The number of live handler objects of one kind.\<close>

definition live_handlers :: "device \<Rightarrow> seat_heap \<Rightarrow> nat" where
  "live_handlers dev h = length (filter (\<lambda>(d, p). d = dev) (seat_live h))"

definition seat_heap_init :: seat_heap where
  "seat_heap_init = \<lparr> seat_live = [], seat_proxies = [], seat_next = 1 \<rparr>"

section \<open>Window (window.h, window.cc)\<close>

datatype ShellType = AGL | IVI | XDG | NONE

text \<open>
  \<^verbatim>\<open>draw_callback_\<close> is a \<^verbatim>\<open>std::function\<close>, which is empty or holds user code. What
  the user code does is not part of the library: \<open>Window_draw_callback\<close> says whether
  the function holds a target, and calling it is recorded in the trace with its
  arguments.
\<close>

record Window =
  Window_wl_surface :: handle
  Window_wl_callback :: handle
  Window_shell_type :: ShellType
  Window_draw_callback :: bool

text \<open>What a window does to the outside, in order.\<close>

datatype window_action =
    Callback_destroyed handle
  | Draw_callback_invoked "32 word"
  | Surface_frame_requested handle handle
  | Callback_listener_added handle
  | Surface_committed handle

text \<open>
  The windowing library's side: the \<^verbatim>\<open>wl_callback\<close> proxies that exist (created by
  \<^verbatim>\<open>wl_surface_frame\<close> and not yet destroyed), the handle the next
  \<^verbatim>\<open>wl_surface_frame\<close> returns, and the trace.
\<close>

record window_world =
  ww_callbacks :: "handle list"
  ww_next :: handle
  ww_trace :: "window_action list"

text \<open>
  \<^verbatim>\<open>wl_callback_destroy\<close> frees the proxy. Called on a pointer whose proxy is already
  freed it reads and frees released memory; the model stops there with an error.
\<close>

datatype window_error = Destroy_of_freed_callback handle

definition wl_callback_destroy :: "handle \<Rightarrow> window_world \<Rightarrow> window_error + window_world" where
  "wl_callback_destroy cb w =
     (if cb \<in> set (ww_callbacks w)
      then Inr (w\<lparr>ww_callbacks := removeAll cb (ww_callbacks w),
                   ww_trace := ww_trace w @ [Callback_destroyed cb]\<rparr>)
      else Inl (Destroy_of_freed_callback cb))"

definition wl_surface_frame :: "handle \<Rightarrow> window_world \<Rightarrow> handle \<times> window_world" where
  "wl_surface_frame surface w =
     (ww_next w, w\<lparr>ww_callbacks := ww_callbacks w @ [ww_next w],
                   ww_next := Suc (ww_next w),
                   ww_trace := ww_trace w @ [Surface_frame_requested surface (ww_next w)]\<rparr>)"

definition log_action :: "window_action \<Rightarrow> window_world \<Rightarrow> window_world" where
  "log_action a w = w\<lparr>ww_trace := ww_trace w @ [a]\<rparr>"

text \<open>
  \<^verbatim>\<open>stop_frames\<close> is a \<^verbatim>\<open>const\<close> method: it destroys the proxy and does not write
  \<^verbatim>\<open>wl_callback_\<close>.
\<close>

definition stop_frames :: "Window \<times> window_world \<Rightarrow> window_error + (Window \<times> window_world)" where
  "stop_frames = (\<lambda>(obj, w).
     if Window_wl_callback obj \<noteq> nullptr
     then (case wl_callback_destroy (Window_wl_callback obj) w of
             Inl err \<Rightarrow> Inl err
           | Inr w' \<Rightarrow> Inr (obj, w'))
     else Inr (obj, w))"

definition on_frame ::
  "handle \<Rightarrow> 32 word \<Rightarrow> Window \<times> window_world \<Rightarrow> window_error + (Window \<times> window_world)" where
  "on_frame callback time = (\<lambda>(obj, w).
     let obj1 = obj\<lparr>Window_wl_callback := nullptr\<rparr> in
     case (if callback \<noteq> nullptr then wl_callback_destroy callback w else Inr w) of
       Inl err \<Rightarrow> Inl err
     | Inr w1 \<Rightarrow>
         let w2 = (if Window_draw_callback obj1 then log_action (Draw_callback_invoked time) w1
                   else w1);
             (cb, w3) = wl_surface_frame (Window_wl_surface obj1) w2;
             obj2 = obj1\<lparr>Window_wl_callback := cb\<rparr>;
             w4 = log_action (Callback_listener_added cb) w3;
             w5 = log_action (Surface_committed (Window_wl_surface obj2)) w4
         in Inr (obj2, w5))"

definition start_frames :: "Window \<times> window_world \<Rightarrow> window_error + (Window \<times> window_world)" where
  "start_frames s =
     (case stop_frames s of
        Inl err \<Rightarrow> Inl err
      | Inr s' \<Rightarrow> on_frame nullptr 0 s')"

text \<open>
  The constructor: \<^verbatim>\<open>wl_surface_\<close> is what \<^verbatim>\<open>wl_compositor_create_surface\<close> returned,
  \<^verbatim>\<open>wl_callback_\<close> starts null, and \<^verbatim>\<open>start_frames\<close> runs.
\<close>

definition Window_ctor ::
  "handle \<Rightarrow> ShellType \<Rightarrow> bool \<Rightarrow> window_world \<Rightarrow> window_error + (Window \<times> window_world)" where
  "Window_ctor surface shell_type draw_callback w =
     start_frames (\<lparr> Window_wl_surface = surface, Window_wl_callback = nullptr,
                      Window_shell_type = shell_type,
                      Window_draw_callback = draw_callback \<rparr>, w)"

text \<open>
  What the constructor of \<^verbatim>\<open>WindowManager\<close> does to its base class \<^verbatim>\<open>Window\<close>: the base
  constructor runs with the logging lambda as draw callback, and the body ends with
  \<^verbatim>\<open>start_frames\<close>. For a shell type other than XDG nothing happens in between.
\<close>

definition WindowManager_ctor ::
  "handle \<Rightarrow> ShellType \<Rightarrow> window_world \<Rightarrow> window_error + (Window \<times> window_world)" where
  "WindowManager_ctor surface shell_type w =
     (case Window_ctor surface shell_type True w of
        Inl err \<Rightarrow> Inl err
      | Inr s \<Rightarrow> start_frames s)"

text \<open>The destructor of \<^verbatim>\<open>Window\<close> is one call of \<^verbatim>\<open>stop_frames\<close>.\<close>

definition Window_dtor :: "Window \<times> window_world \<Rightarrow> window_error + (Window \<times> window_world)" where
  "Window_dtor s = stop_frames s"

text \<open>
  The destructor of \<^verbatim>\<open>WindowManager\<close>, which derives from \<^verbatim>\<open>Window\<close>: its body calls
  \<^verbatim>\<open>stop_frames\<close>, and then the destructor of the base class runs.
\<close>

definition WindowManager_dtor :: "Window \<times> window_world \<Rightarrow> window_error + (Window \<times> window_world)" where
  "WindowManager_dtor s =
     (case stop_frames s of
        Inl err \<Rightarrow> Inl err
      | Inr s' \<Rightarrow> Window_dtor s')"

definition draw_invocations :: "window_action list \<Rightarrow> nat" where
  "draw_invocations tr = length (filter (\<lambda>a. case a of Draw_callback_invoked _ \<Rightarrow> True | _ \<Rightarrow> False) tr)"

definition window_world_init :: window_world where
  "window_world_init = \<lparr> ww_callbacks = [], ww_next = 1, ww_trace = [] \<rparr>"

section \<open>XdgWm (xdg_wm.h, xdg_wm.cc)\<close>

text \<open>
  The values of \<^verbatim>\<open>enum xdg_toplevel_state\<close> in the protocol header of the shell.
\<close>

definition XDG_TOPLEVEL_STATE_MAXIMIZED :: "32 word" where
  "XDG_TOPLEVEL_STATE_MAXIMIZED = 1"

definition XDG_TOPLEVEL_STATE_FULLSCREEN :: "32 word" where
  "XDG_TOPLEVEL_STATE_FULLSCREEN = 2"

definition XDG_TOPLEVEL_STATE_RESIZING :: "32 word" where
  "XDG_TOPLEVEL_STATE_RESIZING = 3"

definition XDG_TOPLEVEL_STATE_ACTIVATED :: "32 word" where
  "XDG_TOPLEVEL_STATE_ACTIVATED = 4"

text \<open>
  The anonymous structs \<^verbatim>\<open>geometry_\<close> and \<^verbatim>\<open>window_size_\<close> are pairs (width, height).
  The \<^verbatim>\<open>int32_t\<close> dimensions are compared with zero and copied, never computed
  with, so they are modelled by their integer value.
\<close>

record XdgWm =
  XdgWm_wl_surface :: handle
  XdgWm_wl_registry :: handle
  XdgWm_xdg_wm_base :: handle
  XdgWm_xdg_surface :: handle
  XdgWm_xdg_toplevel :: handle
  XdgWm_wait_for_configure :: bool
  XdgWm_fullscreen :: bool
  XdgWm_maximized :: bool
  XdgWm_resize :: bool
  XdgWm_activated :: bool
  XdgWm_running :: bool
  XdgWm_geometry :: "int \<times> int"
  XdgWm_window_size :: "int \<times> int"

text \<open>The requests the object sends to the server, in order.\<close>

datatype xdg_request =
    Registry_bind handle "32 word" "32 word" handle
  | Get_xdg_surface handle handle handle
  | Get_toplevel handle handle
  | Set_title handle string
  | Set_app_id handle string
  | Commit handle
  | Pong handle "32 word"
  | Ack_configure handle "32 word"

record xdg_conn =
  xc_requests :: "xdg_request list"
  xc_next :: handle

definition send :: "xdg_request \<Rightarrow> xdg_conn \<Rightarrow> xdg_conn" where
  "send r c = c\<lparr>xc_requests := xc_requests c @ [r]\<rparr>"

definition fresh :: "xdg_conn \<Rightarrow> handle \<times> xdg_conn" where
  "fresh c = (xc_next c, c\<lparr>xc_next := Suc (xc_next c)\<rparr>)"

text \<open>
  The constructor: \<open>registry\<close> is what \<^verbatim>\<open>wl_display_get_registry\<close> returned; the other
  members take the initialisers of the header.
\<close>

definition XdgWm_ctor :: "handle \<Rightarrow> handle \<Rightarrow> XdgWm" where
  "XdgWm_ctor registry base_surface =
     \<lparr> XdgWm_wl_surface = base_surface, XdgWm_wl_registry = registry,
       XdgWm_xdg_wm_base = nullptr, XdgWm_xdg_surface = nullptr,
       XdgWm_xdg_toplevel = nullptr, XdgWm_wait_for_configure = True,
       XdgWm_fullscreen = False, XdgWm_maximized = False, XdgWm_resize = False,
       XdgWm_activated = False, XdgWm_running = False,
       XdgWm_geometry = (0, 0), XdgWm_window_size = (0, 0) \<rparr>"

definition registry_handle_global ::
  "handle \<Rightarrow> 32 word \<Rightarrow> string \<Rightarrow> 32 word \<Rightarrow> XdgWm \<times> xdg_conn \<Rightarrow> XdgWm \<times> xdg_conn" where
  "registry_handle_global registry name interface version = (\<lambda>(obj, c).
     if interface = ''xdg_wm_base'' then
       let (base, c1) = fresh c;
           c2 = send (Registry_bind registry name (min 3 version) base) c1;
           obj1 = obj\<lparr>XdgWm_xdg_wm_base := base\<rparr>;
           (surf, c3) = fresh c2;
           c4 = send (Get_xdg_surface base (XdgWm_wl_surface obj1) surf) c3;
           obj2 = obj1\<lparr>XdgWm_xdg_surface := surf\<rparr>;
           (top, c5) = fresh c4;
           c6 = send (Get_toplevel surf top) c5;
           obj3 = obj2\<lparr>XdgWm_xdg_toplevel := top\<rparr>;
           c7 = send (Set_title top ''waypp'') c6;
           c8 = send (Set_app_id top ''waypp'') c7;
           c9 = send (Commit (XdgWm_wl_surface obj3)) c8
       in (obj3, c9)
     else (obj, c))"

definition registry_handle_global_remove :: "32 word \<Rightarrow> XdgWm \<times> xdg_conn \<Rightarrow> XdgWm \<times> xdg_conn" where
  "registry_handle_global_remove name s = s"

definition xdg_wm_base_ping :: "handle \<Rightarrow> 32 word \<Rightarrow> XdgWm \<times> xdg_conn \<Rightarrow> XdgWm \<times> xdg_conn" where
  "xdg_wm_base_ping xdg_wm_base serial = (\<lambda>(obj, c). (obj, send (Pong xdg_wm_base serial) c))"

definition handle_xdg_surface_configure ::
  "handle \<Rightarrow> 32 word \<Rightarrow> XdgWm \<times> xdg_conn \<Rightarrow> XdgWm \<times> xdg_conn" where
  "handle_xdg_surface_configure xdg_surface serial = (\<lambda>(w, c).
     let c1 = send (Ack_configure xdg_surface serial) c;
         w1 = w\<lparr>XdgWm_wait_for_configure := False\<rparr>
     in (w1, c1))"

text \<open>The \<^verbatim>\<open>switch\<close> in the body of the loop over the state array.\<close>

definition toplevel_state_case :: "32 word \<Rightarrow> XdgWm \<Rightarrow> XdgWm" where
  "toplevel_state_case state w =
     (if state = XDG_TOPLEVEL_STATE_FULLSCREEN then w\<lparr>XdgWm_fullscreen := True\<rparr>
      else if state = XDG_TOPLEVEL_STATE_MAXIMIZED then w\<lparr>XdgWm_maximized := True\<rparr>
      else if state = XDG_TOPLEVEL_STATE_RESIZING then w\<lparr>XdgWm_resize := True\<rparr>
      else if state = XDG_TOPLEVEL_STATE_ACTIVATED then w\<lparr>XdgWm_activated := True\<rparr>
      else w)"

fun toplevel_states_loop :: "32 word list \<Rightarrow> XdgWm \<Rightarrow> XdgWm" where
  "toplevel_states_loop [] w = w"
| "toplevel_states_loop (state # states) w =
     toplevel_states_loop states (toplevel_state_case state w)"

definition handle_toplevel_configure :: "int \<Rightarrow> int \<Rightarrow> 32 word list \<Rightarrow> XdgWm \<Rightarrow> XdgWm" where
  "handle_toplevel_configure width height states w =
     (if width = 0 \<or> height = 0 then w
      else
        let w1 = w\<lparr>XdgWm_fullscreen := False, XdgWm_maximized := False,
                    XdgWm_resize := False, XdgWm_activated := False\<rparr>;
            w2 = toplevel_states_loop states w1
        in if width > 0 \<and> height > 0 then
             (let w3 = (if \<not> XdgWm_fullscreen w2 \<and> \<not> XdgWm_maximized w2
                        then w2\<lparr>XdgWm_window_size := (width, height)\<rparr> else w2)
              in w3\<lparr>XdgWm_geometry := (width, height)\<rparr>)
           else if \<not> XdgWm_fullscreen w2 \<and> \<not> XdgWm_maximized w2
           then w2\<lparr>XdgWm_geometry := XdgWm_window_size w2\<rparr>
           else w2)"

definition handle_toplevel_close :: "XdgWm \<Rightarrow> XdgWm" where
  "handle_toplevel_close w = w\<lparr>XdgWm_running := False\<rparr>"

text \<open>
  The events of the four listener tables, each with the proxy it arrives on, and the
  handler each one runs.
\<close>

datatype xdg_event =
    Registry_global handle "32 word" string "32 word"
  | Registry_global_remove "32 word"
  | Wm_base_ping handle "32 word"
  | Surface_configure handle "32 word"
  | Toplevel_configure int int "32 word list"
  | Toplevel_close

fun xdg_dispatch :: "xdg_event \<Rightarrow> XdgWm \<times> xdg_conn \<Rightarrow> XdgWm \<times> xdg_conn" where
  "xdg_dispatch (Registry_global registry name interface version) s =
     registry_handle_global registry name interface version s"
| "xdg_dispatch (Registry_global_remove name) s = registry_handle_global_remove name s"
| "xdg_dispatch (Wm_base_ping base serial) s = xdg_wm_base_ping base serial s"
| "xdg_dispatch (Surface_configure surface serial) s =
     handle_xdg_surface_configure surface serial s"
| "xdg_dispatch (Toplevel_configure width height states) (w, c) =
     (handle_toplevel_configure width height states w, c)"
| "xdg_dispatch Toplevel_close (w, c) = (handle_toplevel_close w, c)"

fun xdg_run :: "xdg_event list \<Rightarrow> XdgWm \<times> xdg_conn \<Rightarrow> XdgWm \<times> xdg_conn" where
  "xdg_run [] s = s"
| "xdg_run (e # es) s = xdg_run es (xdg_dispatch e s)"

fun is_surface_configure :: "xdg_event \<Rightarrow> bool" where
  "is_surface_configure (Surface_configure surface serial) = True"
| "is_surface_configure _ = False"

section \<open>Pointer and Cursor (pointer.h, cursor.h, cursor.cc)\<close>

text \<open>
  Of class \<^verbatim>\<open>Pointer\<close>, \<^verbatim>\<open>Cursor::enable\<close> reads the serial only, through
  \<^verbatim>\<open>parent_->get_serial()\<close>.
\<close>

record Pointer_obj =
  Pointer_pointer :: handle
  Pointer_shm :: handle
  Pointer_enable_cursor :: bool
  Pointer_serial :: "32 word"

definition get_serial :: "Pointer_obj \<Rightarrow> 32 word" where
  "get_serial p = Pointer_serial p"

text \<open>
  A \<^verbatim>\<open>wl_cursor_image\<close> of the cursor library, with what
  \<^verbatim>\<open>wl_cursor_image_get_buffer\<close> returns for it (null on failure). A \<^verbatim>\<open>wl_cursor\<close> of a
  loaded theme has at least one image; \<open>images0\<close> is \<^verbatim>\<open>images[0]\<close>.
\<close>

record wl_cursor_image =
  img_width :: "32 word"
  img_height :: "32 word"
  img_hotspot_x :: "32 word"
  img_hotspot_y :: "32 word"
  img_buffer :: handle

record wl_cursor =
  images0 :: wl_cursor_image
  images_rest :: "wl_cursor_image list"

text \<open>
  \<^verbatim>\<open>theme_\<close> is the loaded theme: \<^verbatim>\<open>wl_cursor_theme_get_cursor(theme_, name)\<close> is the
  lookup of a name in it, \<open>None\<close> for the null pointer.
\<close>

record Cursor =
  Cursor_wl_pointer :: handle
  Cursor_wl_surface :: handle
  Cursor_theme :: "string \<Rightarrow> wl_cursor option"
  Cursor_wl_shm :: handle
  Cursor_enable :: bool
  Cursor_theme_name :: string

definition kCursorKindBasic :: string where
  "kCursorKindBasic = ''left_ptr''"

definition kCursorKindClick :: string where
  "kCursorKindClick = ''hand''"

definition kCursorKindText :: string where
  "kCursorKindText = ''left_ptr''"

definition kCursorKindForbidden :: string where
  "kCursorKindForbidden = ''pirate''"

text \<open>
  The requests \<^verbatim>\<open>enable\<close> sends. The \<^verbatim>\<open>static_cast<int32_t>\<close> of the image's unsigned
  fields keeps the 32 bits, which is what the request carries.
\<close>

datatype cursor_request =
    Pointer_set_cursor handle "32 word" handle "32 word" "32 word"
  | Surface_attach handle handle "32 word" "32 word"
  | Surface_damage handle "32 word" "32 word" "32 word" "32 word"
  | Surface_commit handle

text \<open>
  A request function of the windowing library dereferences the proxy it is called on
  (its first argument). On a null proxy the program faults; the model stops there
  with an error that names the function. Further object arguments may be null
  (\<^verbatim>\<open>wl_pointer_set_cursor\<close> with a null surface hides the cursor). Each function
  takes the requests sent so far and returns them with its own.
\<close>

datatype cursor_error = Null_proxy_dereferenced string

definition wl_pointer_set_cursor ::
  "handle \<Rightarrow> 32 word \<Rightarrow> handle \<Rightarrow> 32 word \<Rightarrow> 32 word \<Rightarrow> cursor_request list
     \<Rightarrow> cursor_error + cursor_request list" where
  "wl_pointer_set_cursor pointer serial surface hotspot_x hotspot_y sent =
     (if pointer = nullptr then Inl (Null_proxy_dereferenced ''wl_pointer_set_cursor'')
      else Inr (sent @ [Pointer_set_cursor pointer serial surface hotspot_x hotspot_y]))"

definition wl_surface_attach ::
  "handle \<Rightarrow> handle \<Rightarrow> 32 word \<Rightarrow> 32 word \<Rightarrow> cursor_request list
     \<Rightarrow> cursor_error + cursor_request list" where
  "wl_surface_attach surface buffer x y sent =
     (if surface = nullptr then Inl (Null_proxy_dereferenced ''wl_surface_attach'')
      else Inr (sent @ [Surface_attach surface buffer x y]))"

definition wl_surface_damage ::
  "handle \<Rightarrow> 32 word \<Rightarrow> 32 word \<Rightarrow> 32 word \<Rightarrow> 32 word \<Rightarrow> cursor_request list
     \<Rightarrow> cursor_error + cursor_request list" where
  "wl_surface_damage surface x y width height sent =
     (if surface = nullptr then Inl (Null_proxy_dereferenced ''wl_surface_damage'')
      else Inr (sent @ [Surface_damage surface x y width height]))"

definition wl_surface_commit ::
  "handle \<Rightarrow> cursor_request list \<Rightarrow> cursor_error + cursor_request list" where
  "wl_surface_commit surface sent =
     (if surface = nullptr then Inl (Null_proxy_dereferenced ''wl_surface_commit'')
      else Inr (sent @ [Surface_commit surface]))"

text \<open>
  Sequencing: \<open>and_then r f\<close> runs the next call \<open>f\<close> unless \<open>r\<close> is a fault;
  \<open>returning b r\<close> is the \<^verbatim>\<open>return b\<close> that follows the calls.
\<close>

definition and_then ::
  "cursor_error + cursor_request list
     \<Rightarrow> (cursor_request list \<Rightarrow> cursor_error + cursor_request list)
     \<Rightarrow> cursor_error + cursor_request list" where
  "and_then r f = (case r of Inl err \<Rightarrow> Inl err | Inr sent \<Rightarrow> f sent)"

definition returning ::
  "bool \<Rightarrow> cursor_error + cursor_request list
     \<Rightarrow> cursor_error + (bool \<times> cursor_request list)" where
  "returning b r = (case r of Inl err \<Rightarrow> Inl err | Inr sent \<Rightarrow> Inr (b, sent))"

text \<open>The chain of \<^verbatim>\<open>strcmp\<close> tests; \<open>None\<close> is the final \<^verbatim>\<open>else\<close>.\<close>

definition cursor_name_of_kind :: "string \<Rightarrow> string option" where
  "cursor_name_of_kind kind =
     (if kind = ''basic'' then Some kCursorKindBasic
      else if kind = ''click'' then Some kCursorKindClick
      else if kind = ''text'' then Some kCursorKindText
      else if kind = ''forbidden'' then Some kCursorKindForbidden
      else None)"

text \<open>
  \<^verbatim>\<open>Cursor::enable\<close>; \<open>parent\<close> is the object \<^verbatim>\<open>parent_\<close> points to. The result is the
  returned boolean with the requests sent, in order, or the fault. The branch for
  disabled cursor rendering makes its three calls with no test of the handles; the
  other branch makes its calls under the tests of \<^verbatim>\<open>wl_pointer_\<close>, of the buffer and of
  \<^verbatim>\<open>wl_surface_\<close>.
\<close>

definition enable ::
  "Pointer_obj \<Rightarrow> Cursor \<Rightarrow> 32 word \<Rightarrow> string \<Rightarrow> cursor_error + (bool \<times> cursor_request list)" where
  "enable parent obj device kind =
     (if \<not> Cursor_enable obj then
        returning True
          (and_then
            (and_then
              (wl_pointer_set_cursor (Cursor_wl_pointer obj) (get_serial parent)
                 (Cursor_wl_surface obj) 0 0 [])
              (wl_surface_damage (Cursor_wl_surface obj) 0 0 0 0))
            (wl_surface_commit (Cursor_wl_surface obj)))
      else if Cursor_wl_pointer obj \<noteq> nullptr then
        (case cursor_name_of_kind kind of
           None \<Rightarrow> Inr (False, [])
         | Some cursor_name \<Rightarrow>
             (case Cursor_theme obj cursor_name of
                None \<Rightarrow> Inr (False, [])
              | Some cursor \<Rightarrow>
                  (let cursor_buffer = img_buffer (images0 cursor) in
                   if cursor_buffer \<noteq> nullptr \<and> Cursor_wl_surface obj \<noteq> nullptr then
                     returning True
                       (and_then
                         (and_then
                           (and_then
                             (wl_pointer_set_cursor (Cursor_wl_pointer obj) (get_serial parent)
                                (Cursor_wl_surface obj)
                                (img_hotspot_x (images0 cursor)) (img_hotspot_y (images0 cursor)) [])
                             (wl_surface_attach (Cursor_wl_surface obj) cursor_buffer 0 0))
                           (wl_surface_damage (Cursor_wl_surface obj) 0 0
                              (img_width (images0 cursor)) (img_height (images0 cursor))))
                         (wl_surface_commit (Cursor_wl_surface obj)))
                   else Inr (False, []))))
      else Inr (True, []))"

section \<open>WindowManager::dispatch (window_manager.cc)\<close>

text \<open>
  The C type \<^verbatim>\<open>int\<close> has 32 bits. Its values are words, read as two's complement by
  \<open>sint\<close>; the addition and the negation of the code are the machine's, which wrap
  around (the word operations).
\<close>

type_synonym c_int = "32 word"

definition INT_MAX :: int where
  "INT_MAX = 2147483647"

definition EAGAIN :: c_int where
  "EAGAIN = 11"

definition POLLIN :: "16 word" where
  "POLLIN = 1"

text \<open>
  What the display library and the kernel answer during one call of \<^verbatim>\<open>dispatch\<close> that
  reaches its \<^verbatim>\<open>return\<close>:
  \<^item> \<open>env_prepare_loop\<close>: the loop \<^verbatim>\<open>while (wl_display_prepare_read(...) != 0)\<close> ran once
    for each element, which is what \<^verbatim>\<open>wl_display_dispatch_pending\<close> returned in that
    iteration (the number of events, or -1 on failure);
  \<^item> \<open>env_flush\<close>, \<open>env_flush_errno\<close>: the result of \<^verbatim>\<open>wl_display_flush\<close> and the value
    of \<^verbatim>\<open>errno\<close> after it;
  \<^item> \<open>env_poll\<close>, \<open>env_revents\<close>, \<open>env_poll_errno\<close>: the result of \<^verbatim>\<open>poll\<close>, the
    \<^verbatim>\<open>revents\<close> it wrote and \<^verbatim>\<open>errno\<close> after it;
  \<^item> \<open>env_read_pending\<close>: what \<^verbatim>\<open>wl_display_dispatch_pending\<close> returned after
    \<^verbatim>\<open>wl_display_read_events\<close>.
  The loop over \<^verbatim>\<open>g_main_context_iteration\<close> that comes first writes no variable of
  \<^verbatim>\<open>dispatch\<close>, and \<^verbatim>\<open>wl_display_cancel_read\<close> leaves \<^verbatim>\<open>errno\<close> as it is.
\<close>

record dispatch_env =
  env_prepare_loop :: "c_int list"
  env_flush :: c_int
  env_flush_errno :: c_int
  env_poll :: c_int
  env_revents :: "16 word"
  env_poll_errno :: c_int
  env_read_pending :: c_int

text \<open>
  The first \<^verbatim>\<open>while\<close> loop that changes \<^verbatim>\<open>dispatch_count\<close>: \<^verbatim>\<open>dispatch_count += ...\<close> on
  an \<^verbatim>\<open>int\<close>.
\<close>

fun prepare_read_loop :: "c_int list \<Rightarrow> c_int \<Rightarrow> c_int" where
  "prepare_read_loop [] dispatch_count = dispatch_count"
| "prepare_read_loop (pending # rest) dispatch_count =
     prepare_read_loop rest (dispatch_count + pending)"

definition dispatch :: "c_int \<Rightarrow> dispatch_env \<Rightarrow> c_int" where
  "dispatch timeout env =
     (let dispatch_count = prepare_read_loop (env_prepare_loop env) 0 in
      if sint (env_flush env) < 0 \<and> env_flush_errno env \<noteq> EAGAIN then - env_flush_errno env
      else
        let ret = env_poll env in
        if 0 < sint ret then
          (if env_revents env AND POLLIN \<noteq> 0
           then dispatch_count + env_read_pending env
           else dispatch_count)
        else if ret = 0 then dispatch_count
        else - env_poll_errno env)"

text \<open>The two conditions under which the source returns \<^verbatim>\<open>-errno\<close>.\<close>

definition flush_failed :: "dispatch_env \<Rightarrow> bool" where
  "flush_failed env = (sint (env_flush env) < 0 \<and> env_flush_errno env \<noteq> EAGAIN)"

definition poll_failed :: "dispatch_env \<Rightarrow> bool" where
  "poll_failed env = (\<not> flush_failed env \<and> sint (env_poll env) < 0)"

text \<open>The number of events the first loop dispatched, as a number.\<close>

definition events_total :: "c_int list \<Rightarrow> int" where
  "events_total pendings = sum_list (map sint pendings)"

section \<open>Auxiliary notions for the proofs about Seat\<close>

text \<open>
  The common shape of the three blocks of \<^verbatim>\<open>handle_capabilities\<close>: \<open>has\<close> is the test
  of the capability bit, \<open>cur\<close> the \<^verbatim>\<open>unique_ptr\<close> member before the block; the result is
  the member after it, with the heap.
\<close>

definition capability_step ::
  "bool \<Rightarrow> handle option \<Rightarrow> device \<Rightarrow> seat_heap \<Rightarrow> seat_error + (handle option \<times> seat_heap)" where
  "capability_step has cur dev h =
     (if has \<and> cur = None then (case construct dev h of (p, h') \<Rightarrow> Inr (Some p, h'))
      else if \<not> has \<and> cur \<noteq> None
      then (case destroy dev (the cur) h of Inl err \<Rightarrow> Inl err | Inr h' \<Rightarrow> Inr (None, h'))
      else Inr (cur, h))"

text \<open>
  The live handler objects of one kind, and what it means that a \<^verbatim>\<open>unique_ptr\<close>
  member accounts for all of them: the heap holds the object the member owns, and no
  other object of this kind.
\<close>

definition live_of :: "device \<Rightarrow> seat_heap \<Rightarrow> (device \<times> handle) list" where
  "live_of dev h = filter (\<lambda>(d, p). d = dev) (seat_live h)"

definition owns :: "device \<Rightarrow> handle option \<Rightarrow> seat_heap \<Rightarrow> bool" where
  "owns dev cur h = (live_of dev h = (case cur of None \<Rightarrow> [] | Some p \<Rightarrow> [(dev, p)]))"

definition seat_consistent :: "Seat \<times> seat_heap \<Rightarrow> bool" where
  "seat_consistent = (\<lambda>(obj, h).
     owns Pointer (Seat_pointer obj) h \<and> owns Keyboard (Seat_keyboard obj) h
     \<and> owns Touch (Seat_touch obj) h)"

section \<open>Concrete objects and environments\<close>

text \<open>The inputs at which the theorems below are evaluated.\<close>

definition egl_thread_init :: egl_thread where
  "egl_thread_init =
     \<lparr> current_context = EGL_NO_CONTEXT, make_current_calls = [], swap_buffers_calls = [] \<rparr>"

definition egl_three_contexts :: Egl where
  "egl_three_contexts =
     Egl_fields_init\<lparr>Egl_dpy := 1, Egl_context := 2, Egl_resource_context := 3,
                      Egl_texture_context := 4\<rparr>"

definition driver_ok :: egl_driver where
  "driver_ok =
     \<lparr> drv_eglGetDisplay = 1, drv_eglInitialize = Some (1, 5), drv_eglBindAPI = True,
       drv_eglGetConfigs = Some 3,
       drv_eglChooseConfig =
         Some [\<lparr>cfg_handle = 10, cfg_buffer_size = Some 16\<rparr>,
               \<lparr>cfg_handle = 11, cfg_buffer_size = Some 24\<rparr>,
               \<lparr>cfg_handle = 12, cfg_buffer_size = Some 32\<rparr>],
       drv_eglCreateContext = (20, 21, 22), drv_make_current_ok = True,
       drv_eglQueryString = ''EGL_EXT_buffer_age EGL_KHR_partial_update'',
       drv_eglGetProcAddress = (\<lambda>name. 30), drv_clear_current_ok = True \<rparr>"

definition driver_without_contexts :: egl_driver where
  "driver_without_contexts =
     driver_ok\<lparr>drv_eglCreateContext := (EGL_NO_CONTEXT, EGL_NO_CONTEXT, EGL_NO_CONTEXT),
               drv_make_current_ok := False\<rparr>"

definition driver_without_api :: egl_driver where
  "driver_without_api = driver_ok\<lparr>drv_eglBindAPI := False\<rparr>"

text \<open>
  Two drivers whose buffer-size query fails for one config: for the second config,
  which the selection loop reaches after the 16-bit one, and for the third config,
  which comes after the first acceptable one.
\<close>

definition driver_query_fails_reached :: egl_driver where
  "driver_query_fails_reached =
     driver_ok\<lparr>drv_eglChooseConfig :=
       Some [\<lparr>cfg_handle = 10, cfg_buffer_size = Some 16\<rparr>,
             \<lparr>cfg_handle = 11, cfg_buffer_size = None\<rparr>,
             \<lparr>cfg_handle = 12, cfg_buffer_size = Some 32\<rparr>]\<rparr>"

definition driver_query_fails_later :: egl_driver where
  "driver_query_fails_later =
     driver_ok\<lparr>drv_eglChooseConfig :=
       Some [\<lparr>cfg_handle = 10, cfg_buffer_size = Some 16\<rparr>,
             \<lparr>cfg_handle = 11, cfg_buffer_size = Some 24\<rparr>,
             \<lparr>cfg_handle = 12, cfg_buffer_size = None\<rparr>]\<rparr>"

text \<open>
  The Seat after the pointer capability was advertised once, and its heap: the Pointer
  handler wraps the proxy 1.
\<close>

definition seat_with_pointer :: "Seat \<times> seat_heap" where
  "seat_with_pointer =
     ((Seat_ctor 1 2 3 True 5)\<lparr>Seat_capabilities := 1, Seat_pointer := Some 1\<rparr>,
      \<lparr> seat_live = [(Pointer, 1)], seat_proxies = [1], seat_next = 2 \<rparr>)"

text \<open>
  An XdgWm that was configured to 640 x 480 as a floating window and then to 800 x 600
  as a fullscreen window: its geometry is 800 x 600 and its nominal size 640 x 480.
\<close>

definition xdg_fullscreen_800_600 :: XdgWm where
  "xdg_fullscreen_800_600 =
     handle_toplevel_configure 800 600 [XDG_TOPLEVEL_STATE_FULLSCREEN]
       (handle_toplevel_configure 640 480 [] (XdgWm_ctor 1 2))"

definition xdg_conn_init :: xdg_conn where
  "xdg_conn_init = \<lparr> xc_requests = [], xc_next = 3 \<rparr>"

text \<open>
  A window as its constructor leaves it (surface 7, a draw callback registered), and
  the same window after one \<^verbatim>\<open>stop_frames\<close>: the library holds no callback proxy any
  more, and \<^verbatim>\<open>wl_callback_\<close> still holds the handle 1.
\<close>

definition window_framing :: "Window \<times> window_world" where
  "window_framing =
     (\<lparr> Window_wl_surface = 7, Window_wl_callback = 1, Window_shell_type = XDG,
        Window_draw_callback = True \<rparr>,
      \<lparr> ww_callbacks = [1], ww_next = 2,
        ww_trace = [Draw_callback_invoked 0, Surface_frame_requested 7 1,
                    Callback_listener_added 1, Surface_committed 7] \<rparr>)"

definition window_stopped :: "Window \<times> window_world" where
  "window_stopped =
     (\<lparr> Window_wl_surface = 7, Window_wl_callback = 1, Window_shell_type = XDG,
        Window_draw_callback = True \<rparr>,
      \<lparr> ww_callbacks = [], ww_next = 2,
        ww_trace = [Draw_callback_invoked 0, Surface_frame_requested 7 1,
                    Callback_listener_added 1, Surface_committed 7,
                    Callback_destroyed 1] \<rparr>)"

text \<open>
  The \<^verbatim>\<open>Window\<close> part of a \<^verbatim>\<open>WindowManager\<close> of shell type NONE as its constructor leaves
  it: the draw callback has run twice, once in each \<^verbatim>\<open>start_frames\<close>, the first callback
  proxy is destroyed and the second one is pending.
\<close>

definition window_manager_framing :: "Window \<times> window_world" where
  "window_manager_framing =
     (\<lparr> Window_wl_surface = 7, Window_wl_callback = 2, Window_shell_type = NONE,
        Window_draw_callback = True \<rparr>,
      \<lparr> ww_callbacks = [2], ww_next = 3,
        ww_trace = [Draw_callback_invoked 0, Surface_frame_requested 7 1,
                    Callback_listener_added 1, Surface_committed 7,
                    Callback_destroyed 1,
                    Draw_callback_invoked 0, Surface_frame_requested 7 2,
                    Callback_listener_added 2, Surface_committed 7] \<rparr>)"







text \<open>
  Four runs of \<^verbatim>\<open>dispatch\<close>: one where the first loop dispatches 2147483647 events and
  then one more, and \<^verbatim>\<open>poll\<close> times out; one where a \<^verbatim>\<open>wl_display_dispatch_pending\<close> of
  the first loop fails and \<^verbatim>\<open>poll\<close> times out; one where two and one events are
  dispatched, the flush meets \<^verbatim>\<open>EAGAIN\<close> and \<^verbatim>\<open>poll\<close> times out; one where \<^verbatim>\<open>poll\<close>
  fails with \<^verbatim>\<open>errno\<close> 4.
\<close>

definition env_count_overflow :: dispatch_env where
  "env_count_overflow =
     \<lparr> env_prepare_loop = [2147483647, 1], env_flush = 0, env_flush_errno = 0, env_poll = 0,
       env_revents = 0, env_poll_errno = 0, env_read_pending = 0 \<rparr>"

definition env_pending_failed :: dispatch_env where
  "env_pending_failed =
     \<lparr> env_prepare_loop = [- 1], env_flush = 0, env_flush_errno = 0, env_poll = 0,
       env_revents = 0, env_poll_errno = 0, env_read_pending = 0 \<rparr>"

definition env_poll_timeout :: dispatch_env where
  "env_poll_timeout =
     \<lparr> env_prepare_loop = [2, 1], env_flush = - 1, env_flush_errno = EAGAIN, env_poll = 0,
       env_revents = 0, env_poll_errno = EAGAIN, env_read_pending = 0 \<rparr>"

definition env_poll_error :: dispatch_env where
  "env_poll_error =
     \<lparr> env_prepare_loop = [], env_flush = 0, env_flush_errno = 0, env_poll = - 1,
       env_revents = 0, env_poll_errno = 4, env_read_pending = 0 \<rparr>"

section \<open>Properties of Egl\<close>

subsection \<open>The boolean operations\<close>

text \<open>
  Claim C10. In every state of the object and of the EGL thread, and whatever the
  underlying EGL call answers (\<open>ok\<close> true or false), \<^verbatim>\<open>make_current\<close>,
  \<^verbatim>\<open>clear_current\<close>, \<^verbatim>\<open>swap_buffers\<close>, \<^verbatim>\<open>make_resource_current\<close> and
  \<^verbatim>\<open>make_texture_current\<close> return true: a failure of the EGL call does not reach the
  return value.
\<close>

theorem Egl_operations_return_true:
  "fst (make_current ok e t) \<and> fst (clear_current ok e t) \<and> fst (swap_buffers ok e t)
   \<and> fst (make_resource_current ok e t) \<and> fst (make_texture_current ok e t)"
  by (simp add: make_current_def clear_current_def swap_buffers_def
      make_resource_current_def make_texture_current_def)

text \<open>
  Three of the four make-current operations leave the library alone when the context
  they install is the current one.
\<close>

lemma make_current_when_current:
  "current_context t = Egl_context e \<Longrightarrow> make_current ok e t = (True, t)"
  by (simp add: make_current_def eglGetCurrentContext_def)

lemma clear_current_when_current:
  "current_context t = EGL_NO_CONTEXT \<Longrightarrow> clear_current ok e t = (True, t)"
  by (simp add: clear_current_def eglGetCurrentContext_def)

lemma make_texture_current_when_current:
  "current_context t = Egl_texture_context e \<Longrightarrow> make_texture_current ok e t = (True, t)"
  by (simp add: make_texture_current_def eglGetCurrentContext_def)

text \<open>
  With a driver that accepts the switch, each of the three switches at most once in
  two calls in a row.
\<close>

lemma make_current_twice:
  "switches (snd (make_current True e (snd (make_current True e t)))) \<le> Suc (switches t)"
  by (simp add: make_current_def eglGetCurrentContext_def eglMakeCurrent_def switches_def)

lemma clear_current_twice:
  "switches (snd (clear_current True e (snd (clear_current True e t)))) \<le> Suc (switches t)"
  by (simp add: clear_current_def eglGetCurrentContext_def eglMakeCurrent_def switches_def)

lemma make_texture_current_twice:
  "switches (snd (make_texture_current True e (snd (make_texture_current True e t))))
     \<le> Suc (switches t)"
  by (simp add: make_texture_current_def eglGetCurrentContext_def eglMakeCurrent_def
      switches_def)

text \<open>
  Claim C2, at the input where the code departs from it. The object holds the contexts
  2 (main), 3 (resource) and 4 (texture). With no context current, two calls of
  \<^verbatim>\<open>make_resource_current\<close> in a row switch twice, both times to the resource context;
  and with the resource context already current, a call switches again. The test in
  \<^verbatim>\<open>make_resource_current\<close> compares the current context with \<^verbatim>\<open>context_\<close>, not with
  \<^verbatim>\<open>resource_context_\<close>.
\<close>

theorem make_resource_current_switches_again:
  "make_current_calls
     (snd (make_resource_current True egl_three_contexts
        (snd (make_resource_current True egl_three_contexts egl_thread_init))))
     = [(1, EGL_NO_SURFACE, EGL_NO_SURFACE, 3), (1, EGL_NO_SURFACE, EGL_NO_SURFACE, 3)]
   \<and> switches
        (snd (make_resource_current True egl_three_contexts
           (egl_thread_init\<lparr>current_context := Egl_resource_context egl_three_contexts\<rparr>)))
       = 1"
  by (simp add: make_resource_current_def egl_three_contexts_def egl_thread_init_def
      switches_def eglMakeCurrent_def eglGetCurrentContext_def Egl_fields_init_def
      EGL_NO_CONTEXT_def EGL_NO_SURFACE_def)

subsection \<open>Config selection\<close>

text \<open>
  The loop returns the first config whose buffer size reaches the threshold, whatever
  follows it in the array: configs after it are not looked at.
\<close>

lemma select_config_first_match:
  assumes "\<forall>c \<in> set pre. \<exists>sz. cfg_buffer_size c = Some sz \<and> sz < bs"
    and "cfg_buffer_size c = Some sz" and "bs \<le> sz"
  shows "select_config bs (pre @ c # post) cfg = Inr (cfg_handle c)"
  using assms by (induction pre) auto

lemma select_config_no_match:
  assumes "\<forall>c \<in> set cs. \<exists>sz. cfg_buffer_size c = Some sz \<and> sz < bs"
  shows "select_config bs cs cfg = Inr cfg"
  using assms by (induction cs) auto

lemma Egl_ctor_extensions_fields:
  "Egl_config (fst (Egl_ctor_extensions d e t)) = Egl_config e"
  "Egl_context (fst (Egl_ctor_extensions d e t)) = Egl_context e"
  "Egl_resource_context (fst (Egl_ctor_extensions d e t)) = Egl_resource_context e"
  "Egl_texture_context (fst (Egl_ctor_extensions d e t)) = Egl_texture_context e"
  by (simp_all add: Egl_ctor_extensions_def Let_def)

lemma Egl_ctor_contexts_fields:
  "Egl_config (Egl_ctor_contexts d e) = Egl_config e"
  "Egl_context (Egl_ctor_contexts d e) = fst (drv_eglCreateContext d)"
  "Egl_resource_context (Egl_ctor_contexts d e) = fst (snd (drv_eglCreateContext d))"
  "Egl_texture_context (Egl_ctor_contexts d e) = snd (snd (drv_eglCreateContext d))"
  by (simp_all add: Egl_ctor_contexts_def split: prod.splits)

text \<open>
  Claim C8. When initialisation, API binding and config enumeration succeed and the
  server returns the configs \<open>pre @ c # post\<close> in this order, where every config of
  \<open>pre\<close> has a buffer size below 24 and \<open>c\<close> has a buffer size of at least 24, then the
  constructor returns with \<^verbatim>\<open>config_\<close> set to \<open>c\<close>. Nothing is assumed of \<open>post\<close>: the
  configs after the first acceptable one play no part, be they better matches or
  configs whose attribute query would fail.
\<close>

theorem Egl_ctor_selects_first_config:
  assumes "drv_eglInitialize d \<noteq> None" and "drv_eglBindAPI d"
    and "drv_eglGetConfigs d \<noteq> None"
    and "drv_eglChooseConfig d = Some (pre @ c # post)"
    and "\<forall>c' \<in> set pre. \<exists>sz'. cfg_buffer_size c' = Some sz' \<and> sz' < 24"
    and "cfg_buffer_size c = Some sz" and "24 \<le> sz"
  shows "\<exists>e t'. Egl_ctor d t = Inr (e, t') \<and> Egl_config e = cfg_handle c"
proof -
  have sel: "select_config 24 (pre @ c # post) nullptr = Inr (cfg_handle c)"
    using assms(5-7) by (rule select_config_first_match)
  obtain mj mn where init: "drv_eglInitialize d = Some (mj, mn)"
    using assms(1) by (cases "drv_eglInitialize d") auto
  obtain n where count: "drv_eglGetConfigs d = Some n"
    using assms(3) by auto
  show ?thesis
    using sel init count assms(2,4)
    by (simp add: Egl_ctor_def Egl_fields_init_def Egl_ctor_extensions_fields
        Egl_ctor_contexts_fields prod_eq_iff)
qed

theorem Egl_ctor_selects_first_config_witness:
  "\<exists>e t'. Egl_ctor driver_ok egl_thread_init = Inr (e, t') \<and> Egl_config e = 11"
  using Egl_ctor_selects_first_config
    [of driver_ok "[\<lparr>cfg_handle = 10, cfg_buffer_size = Some 16\<rparr>]"
        "\<lparr>cfg_handle = 11, cfg_buffer_size = Some 24\<rparr>"
        "[\<lparr>cfg_handle = 12, cfg_buffer_size = Some 32\<rparr>]" 24 egl_thread_init]
  by (simp add: driver_ok_def)

subsection \<open>Failures during construction\<close>

lemma isl_select_config:
  "isl (select_config bs cs cfg) \<longleftrightarrow>
     (\<exists>pre c post. cs = pre @ c # post \<and> cfg_buffer_size c = None
        \<and> (\<forall>c' \<in> set pre. \<exists>sz. cfg_buffer_size c' = Some sz \<and> sz < bs))"
proof (induction cs)
  case Nil
  then show ?case by simp
next
  case (Cons a cs)
  show ?case
  proof (cases "cfg_buffer_size a")
    case None
    then have "a # cs = [] @ a # cs \<and> cfg_buffer_size a = None
        \<and> (\<forall>c' \<in> set []. \<exists>sz. cfg_buffer_size c' = Some sz \<and> sz < bs)"
      by simp
    then have "\<exists>pre c post. a # cs = pre @ c # post \<and> cfg_buffer_size c = None
        \<and> (\<forall>c' \<in> set pre. \<exists>sz. cfg_buffer_size c' = Some sz \<and> sz < bs)"
      by blast
    with None show ?thesis by simp
  next
    case (Some sz)
    show ?thesis
    proof (cases "bs \<le> sz")
      case True
      have "\<not> (\<exists>pre c post. a # cs = pre @ c # post \<and> cfg_buffer_size c = None
          \<and> (\<forall>c' \<in> set pre. \<exists>sz. cfg_buffer_size c' = Some sz \<and> sz < bs))"
      proof
        assume "\<exists>pre c post. a # cs = pre @ c # post \<and> cfg_buffer_size c = None
          \<and> (\<forall>c' \<in> set pre. \<exists>sz. cfg_buffer_size c' = Some sz \<and> sz < bs)"
        then obtain pre c post where eq: "a # cs = pre @ c # post"
          and none: "cfg_buffer_size c = None"
          and below: "\<forall>c' \<in> set pre. \<exists>sz. cfg_buffer_size c' = Some sz \<and> sz < bs"
          by blast
        show False
        proof (cases pre)
          case Nil
          with eq none Some show False by simp
        next
          case (Cons p ps)
          with eq have "a \<in> set pre" by simp
          with below Some True show False by fastforce
        qed
      qed
      with Some True show ?thesis by simp
    next
      case False
      have "(\<exists>pre c post. a # cs = pre @ c # post \<and> cfg_buffer_size c = None
          \<and> (\<forall>c' \<in> set pre. \<exists>sz. cfg_buffer_size c' = Some sz \<and> sz < bs))
        \<longleftrightarrow> (\<exists>pre c post. cs = pre @ c # post \<and> cfg_buffer_size c = None
          \<and> (\<forall>c' \<in> set pre. \<exists>sz. cfg_buffer_size c' = Some sz \<and> sz < bs))"
        (is "?L \<longleftrightarrow> ?R")
      proof
        assume ?L
        then obtain pre c post where eq: "a # cs = pre @ c # post"
          and none: "cfg_buffer_size c = None"
          and below: "\<forall>c' \<in> set pre. \<exists>sz. cfg_buffer_size c' = Some sz \<and> sz < bs"
          by blast
        show ?R
        proof (cases pre)
          case Nil
          with eq none Some show ?thesis by simp
        next
          case (Cons p ps)
          with eq have "cs = ps @ c # post" by simp
          moreover from below Cons
          have "\<forall>c' \<in> set ps. \<exists>sz. cfg_buffer_size c' = Some sz \<and> sz < bs" by simp
          ultimately show ?thesis using none by blast
        qed
      next
        assume ?R
        then obtain pre c post where eq: "cs = pre @ c # post"
          and none: "cfg_buffer_size c = None"
          and below: "\<forall>c' \<in> set pre. \<exists>sz. cfg_buffer_size c' = Some sz \<and> sz < bs"
          by blast
        have "a # cs = (a # pre) @ c # post" using eq by simp
        moreover have "\<forall>c' \<in> set (a # pre). \<exists>sz. cfg_buffer_size c' = Some sz \<and> sz < bs"
          using below Some False by simp
        ultimately show ?L using none by blast
      qed
      with Some False Cons.IH show ?thesis by simp
    qed
  qed
qed

lemma isl_Egl_ctor:
  "isl (Egl_ctor d t) \<longleftrightarrow>
     drv_eglInitialize d = None \<or> \<not> drv_eglBindAPI d \<or> drv_eglGetConfigs d = None
     \<or> drv_eglChooseConfig d = None
     \<or> (\<exists>configs. drv_eglChooseConfig d = Some configs
           \<and> isl (select_config 24 configs nullptr))"
  by (auto simp: Egl_ctor_def Egl_fields_init_def Let_def
      split: option.splits prod.splits sum.splits)

lemma Egl_ctor_stores_contexts:
  assumes "Egl_ctor d t = Inr (e, t')"
  shows "Egl_context e = fst (drv_eglCreateContext d)
     \<and> Egl_resource_context e = fst (snd (drv_eglCreateContext d))
     \<and> Egl_texture_context e = snd (snd (drv_eglCreateContext d))"
proof -
  from assms have "\<exists>e0. Egl_ctor_extensions d (Egl_ctor_contexts d e0) t = (e, t')"
    by (auto simp: Egl_ctor_def Let_def split: option.splits prod.splits sum.splits if_splits)
  then obtain e0 where "Egl_ctor_extensions d (Egl_ctor_contexts d e0) t = (e, t')"
    by blast
  then have "e = fst (Egl_ctor_extensions d (Egl_ctor_contexts d e0) t)"
    by simp
  then show ?thesis
    by (simp add: Egl_ctor_extensions_fields Egl_ctor_contexts_fields)
qed

text \<open>
  Claim C7 as stated fails for context creation. With a driver whose three
  \<^verbatim>\<open>eglCreateContext\<close> calls fail (each returns \<^verbatim>\<open>EGL_NO_CONTEXT\<close>) and everything before
  succeeds, the constructor raises nothing: it returns an object whose \<^verbatim>\<open>context_\<close> is
  \<^verbatim>\<open>EGL_NO_CONTEXT\<close>.
\<close>

theorem Egl_ctor_context_failure_counterexample:
  "drv_eglCreateContext driver_without_contexts
     = (EGL_NO_CONTEXT, EGL_NO_CONTEXT, EGL_NO_CONTEXT)
   \<and> \<not> isl (Egl_ctor driver_without_contexts egl_thread_init)
   \<and> Egl_context (fst (projr (Egl_ctor driver_without_contexts egl_thread_init)))
       = EGL_NO_CONTEXT"
  by (simp add: Egl_ctor_def driver_without_contexts_def driver_ok_def Egl_fields_init_def
      Egl_ctor_extensions_fields Egl_ctor_contexts_fields)

text \<open>
  Claim C7, amended. The constructor raises an error exactly when display
  initialisation (\<^verbatim>\<open>eglInitialize\<close>), API binding (\<^verbatim>\<open>eglBindAPI\<close>) or config enumeration
  fails, the last being a failure of \<^verbatim>\<open>eglGetConfigs\<close>, of \<^verbatim>\<open>eglChooseConfig\<close>, or of the
  buffer-size query of a config that the selection loop reaches: a config \<open>c\<close> of the
  returned array whose query fails while every config before it has answered with a
  size below 24. The results of context creation play no part in that: when the
  constructor returns, the three contexts are what \<^verbatim>\<open>eglCreateContext\<close> returned,
  \<^verbatim>\<open>EGL_NO_CONTEXT\<close> included.
\<close>

theorem Egl_ctor_raises_iff:
  "(isl (Egl_ctor d t) \<longleftrightarrow>
      drv_eglInitialize d = None \<or> \<not> drv_eglBindAPI d \<or> drv_eglGetConfigs d = None
      \<or> drv_eglChooseConfig d = None
      \<or> (\<exists>pre c post. drv_eglChooseConfig d = Some (pre @ c # post)
            \<and> cfg_buffer_size c = None
            \<and> (\<forall>c' \<in> set pre. \<exists>sz. cfg_buffer_size c' = Some sz \<and> sz < 24)))
   \<and> (\<forall>e t'. Egl_ctor d t = Inr (e, t') \<longrightarrow>
         Egl_context e = fst (drv_eglCreateContext d)
         \<and> Egl_resource_context e = fst (snd (drv_eglCreateContext d))
         \<and> Egl_texture_context e = snd (snd (drv_eglCreateContext d)))"
proof -
  have loop: "(\<exists>configs. drv_eglChooseConfig d = Some configs
        \<and> isl (select_config 24 configs nullptr))
      \<longleftrightarrow> (\<exists>pre c post. drv_eglChooseConfig d = Some (pre @ c # post)
            \<and> cfg_buffer_size c = None
            \<and> (\<forall>c' \<in> set pre. \<exists>sz. cfg_buffer_size c' = Some sz \<and> sz < 24))"
    unfolding isl_select_config by blast
  have raises: "isl (Egl_ctor d t) \<longleftrightarrow>
      drv_eglInitialize d = None \<or> \<not> drv_eglBindAPI d \<or> drv_eglGetConfigs d = None
      \<or> drv_eglChooseConfig d = None
      \<or> (\<exists>pre c post. drv_eglChooseConfig d = Some (pre @ c # post)
            \<and> cfg_buffer_size c = None
            \<and> (\<forall>c' \<in> set pre. \<exists>sz. cfg_buffer_size c' = Some sz \<and> sz < 24))"
    unfolding loop [symmetric] by (rule isl_Egl_ctor)
  show ?thesis
    using raises Egl_ctor_stores_contexts by blast
qed

theorem Egl_ctor_raises_iff_witness:
  "isl (Egl_ctor driver_without_api egl_thread_init)
   \<and> isl (Egl_ctor driver_query_fails_reached egl_thread_init)
   \<and> \<not> isl (Egl_ctor driver_query_fails_later egl_thread_init)
   \<and> \<not> isl (Egl_ctor driver_without_contexts egl_thread_init)
   \<and> Egl_context (fst (projr (Egl_ctor driver_without_contexts egl_thread_init)))
       = EGL_NO_CONTEXT"
proof -
  let ?c16 = "\<lparr>cfg_handle = 10, cfg_buffer_size = Some 16\<rparr>"
  let ?c24 = "\<lparr>cfg_handle = 11, cfg_buffer_size = Some 24\<rparr>"
  let ?c32 = "\<lparr>cfg_handle = 12, cfg_buffer_size = Some 32\<rparr>"
  let ?bad11 = "\<lparr>cfg_handle = 11, cfg_buffer_size = (None :: int option)\<rparr>"
  let ?bad12 = "\<lparr>cfg_handle = 12, cfg_buffer_size = (None :: int option)\<rparr>"
  note spec = Egl_ctor_raises_iff [THEN conjunct1]
  have "\<not> drv_eglBindAPI driver_without_api"
    by (simp add: driver_without_api_def)
  then have api: "isl (Egl_ctor driver_without_api egl_thread_init)"
    using spec [of driver_without_api egl_thread_init] by blast
  have "drv_eglChooseConfig driver_query_fails_reached = Some ([?c16] @ ?bad11 # [?c32])
      \<and> cfg_buffer_size ?bad11 = None
      \<and> (\<forall>c' \<in> set [?c16]. \<exists>sz. cfg_buffer_size c' = Some sz \<and> sz < 24)"
    by (simp add: driver_query_fails_reached_def)
  then have "\<exists>pre c post. drv_eglChooseConfig driver_query_fails_reached = Some (pre @ c # post)
      \<and> cfg_buffer_size c = None
      \<and> (\<forall>c' \<in> set pre. \<exists>sz. cfg_buffer_size c' = Some sz \<and> sz < 24)"
    by blast
  then have reached: "isl (Egl_ctor driver_query_fails_reached egl_thread_init)"
    using spec [of driver_query_fails_reached egl_thread_init] by blast
  have "\<not> isl (select_config 24 [?c16, ?c24, ?bad12] nullptr)"
    by simp
  then have no_later: "\<not> (\<exists>pre c post. [?c16, ?c24, ?bad12] = pre @ c # post
      \<and> cfg_buffer_size c = None
      \<and> (\<forall>c' \<in> set pre. \<exists>sz. cfg_buffer_size c' = Some sz \<and> sz < 24))"
    unfolding isl_select_config .
  have later: "\<not> isl (Egl_ctor driver_query_fails_later egl_thread_init)"
    unfolding spec [of driver_query_fails_later egl_thread_init]
    using no_later by (simp add: driver_query_fails_later_def driver_ok_def)
  have "\<not> isl (select_config 24 [?c16, ?c24, ?c32] nullptr)"
    by simp
  then have no_ok: "\<not> (\<exists>pre c post. [?c16, ?c24, ?c32] = pre @ c # post
      \<and> cfg_buffer_size c = None
      \<and> (\<forall>c' \<in> set pre. \<exists>sz. cfg_buffer_size c' = Some sz \<and> sz < 24))"
    unfolding isl_select_config .
  have returns: "\<not> isl (Egl_ctor driver_without_contexts egl_thread_init)"
    unfolding spec [of driver_without_contexts egl_thread_init]
    using no_ok by (simp add: driver_without_contexts_def driver_ok_def)
  then obtain e t' where res: "Egl_ctor driver_without_contexts egl_thread_init = Inr (e, t')"
    by (cases "Egl_ctor driver_without_contexts egl_thread_init") auto
  then have "Egl_context e = fst (drv_eglCreateContext driver_without_contexts)"
    using Egl_ctor_raises_iff [of driver_without_contexts egl_thread_init] by blast
  then have ctx: "Egl_context (fst (projr (Egl_ctor driver_without_contexts egl_thread_init)))
      = EGL_NO_CONTEXT"
    using res by (simp add: driver_without_contexts_def)
  from api reached later returns ctx show ?thesis by blast
qed

section \<open>Properties of Seat\<close>

text \<open>
  The destructor of a handler never comes to a good end: if its proxy exists, the
  release frees it and the destroy that follows meets the freed proxy; if it does not
  exist, the release itself does.
\<close>

lemma destroy_fails: "destroy dev p h = Inl (Destroy_of_freed_proxy dev p)"
  by (simp add: destroy_def handler_dtor_def wl_device_release_def wl_device_destroy_def)

lemma handle_pointer_capability_step:
  "handle_pointer_capability caps (obj, h) =
     (case capability_step (caps AND WL_SEAT_CAPABILITY_POINTER \<noteq> 0) (Seat_pointer obj) Pointer h of
        Inl err \<Rightarrow> Inl err
      | Inr (u, h') \<Rightarrow> Inr (obj\<lparr>Seat_pointer := u\<rparr>, h'))"
  by (simp add: handle_pointer_capability_def capability_step_def destroy_fails split: prod.splits)

lemma handle_keyboard_capability_step:
  "handle_keyboard_capability caps (obj, h) =
     (case capability_step (caps AND WL_SEAT_CAPABILITY_KEYBOARD \<noteq> 0) (Seat_keyboard obj) Keyboard h of
        Inl err \<Rightarrow> Inl err
      | Inr (u, h') \<Rightarrow> Inr (obj\<lparr>Seat_keyboard := u\<rparr>, h'))"
  by (simp add: handle_keyboard_capability_def capability_step_def destroy_fails split: prod.splits)

lemma handle_touch_capability_step:
  "handle_touch_capability caps (obj, h) =
     (case capability_step (caps AND WL_SEAT_CAPABILITY_TOUCH \<noteq> 0) (Seat_touch obj) Touch h of
        Inl err \<Rightarrow> Inl err
      | Inr (u, h') \<Rightarrow> Inr (obj\<lparr>Seat_touch := u\<rparr>, h'))"
  by (simp add: handle_touch_capability_def capability_step_def destroy_fails split: prod.splits)

lemma live_of_construct:
  "live_of d (snd (construct dev h)) =
     (if d = dev then live_of d h @ [(dev, seat_next h)] else live_of d h)"
  by (simp add: live_of_def construct_def)

text \<open>
  So each block fails when it withdraws a handler, and when it returns it has either
  constructed the handler that was missing or changed nothing.
\<close>

lemma capability_step_withdrawal:
  assumes "\<not> has" and "cur = Some p"
  shows "capability_step has cur dev h = Inl (Destroy_of_freed_proxy dev p)"
  using assms by (simp add: capability_step_def destroy_fails)

lemma capability_step_Inr:
  assumes "capability_step has cur dev h = Inr (u, h')"
  shows "(has \<and> cur = None \<and> u = Some (seat_next h) \<and> h' = snd (construct dev h))
     \<or> (u = cur \<and> h' = h \<and> (has \<longleftrightarrow> cur \<noteq> None))"
  using assms
  by (auto simp: capability_step_def destroy_fails construct_def split: if_splits)

lemma capability_step_owns:
  assumes "capability_step has cur dev h = Inr (u, h')" and "owns dev cur h"
  shows "(u \<noteq> None \<longleftrightarrow> has) \<and> owns dev u h'"
  using capability_step_Inr [OF assms(1)] assms(2)
  by (auto simp: owns_def live_of_construct)

lemma capability_step_others:
  assumes "capability_step has cur dev h = Inr (u, h')" and "d \<noteq> dev"
  shows "owns d c h' = owns d c h"
  using capability_step_Inr [OF assms(1)] assms(2)
  by (auto simp: owns_def live_of_construct)

lemma capability_step_keeps:
  assumes "capability_step has cur dev h = Inr (u, h')" and "cur = Some p"
  shows "u = Some p \<and> h' = h"
  using capability_step_Inr [OF assms(1)] assms(2) by auto

lemma handle_capabilities_consistent:
  assumes "seat_consistent (obj, h)" and "handle_capabilities caps (obj, h) = Inr (obj', h')"
  shows "seat_consistent (obj', h') \<and> Seat_capabilities obj' = caps
     \<and> (Seat_pointer obj' \<noteq> None \<longleftrightarrow> caps AND WL_SEAT_CAPABILITY_POINTER \<noteq> 0)
     \<and> (Seat_keyboard obj' \<noteq> None \<longleftrightarrow> caps AND WL_SEAT_CAPABILITY_KEYBOARD \<noteq> 0)
     \<and> (Seat_touch obj' \<noteq> None \<longleftrightarrow> caps AND WL_SEAT_CAPABILITY_TOUCH \<noteq> 0)"
proof -
  let ?obj = "obj\<lparr>Seat_capabilities := caps\<rparr>"
  from assms(2) obtain u1 h1 where s1: "capability_step (caps AND WL_SEAT_CAPABILITY_POINTER \<noteq> 0)
      (Seat_pointer obj) Pointer h = Inr (u1, h1)"
    and r1: "(case handle_keyboard_capability caps (?obj\<lparr>Seat_pointer := u1\<rparr>, h1) of
        Inl err \<Rightarrow> Inl err | Inr s2 \<Rightarrow> handle_touch_capability caps s2) = Inr (obj', h')"
    by (auto simp: handle_capabilities_def handle_pointer_capability_step split: sum.splits)
  from r1 obtain u2 h2 where s2: "capability_step (caps AND WL_SEAT_CAPABILITY_KEYBOARD \<noteq> 0)
      (Seat_keyboard obj) Keyboard h1 = Inr (u2, h2)"
    and r2: "handle_touch_capability caps (?obj\<lparr>Seat_pointer := u1, Seat_keyboard := u2\<rparr>, h2)
        = Inr (obj', h')"
    by (auto simp: handle_keyboard_capability_step split: sum.splits)
  from r2 obtain u3 h3 where s3: "capability_step (caps AND WL_SEAT_CAPABILITY_TOUCH \<noteq> 0)
      (Seat_touch obj) Touch h2 = Inr (u3, h3)"
    and res: "obj' = ?obj\<lparr>Seat_pointer := u1, Seat_keyboard := u2, Seat_touch := u3\<rparr>" "h' = h3"
    by (auto simp: handle_touch_capability_step split: sum.splits)
  have o: "owns Pointer (Seat_pointer obj) h" "owns Keyboard (Seat_keyboard obj) h"
    "owns Touch (Seat_touch obj) h"
    using assms(1) by (simp_all add: seat_consistent_def)
  have p1: "(u1 \<noteq> None \<longleftrightarrow> caps AND WL_SEAT_CAPABILITY_POINTER \<noteq> 0) \<and> owns Pointer u1 h1"
    using capability_step_owns [OF s1 o(1)] .
  have k1: "owns Keyboard (Seat_keyboard obj) h1" and t1: "owns Touch (Seat_touch obj) h1"
    using o capability_step_others [OF s1] by simp_all
  have k2: "(u2 \<noteq> None \<longleftrightarrow> caps AND WL_SEAT_CAPABILITY_KEYBOARD \<noteq> 0) \<and> owns Keyboard u2 h2"
    using capability_step_owns [OF s2 k1] .
  have p2: "owns Pointer u1 h2" and t2: "owns Touch (Seat_touch obj) h2"
    using p1 t1 capability_step_others [OF s2] by simp_all
  have t3: "(u3 \<noteq> None \<longleftrightarrow> caps AND WL_SEAT_CAPABILITY_TOUCH \<noteq> 0) \<and> owns Touch u3 h3"
    using capability_step_owns [OF s3 t2] .
  have p3: "owns Pointer u1 h3" and k3: "owns Keyboard u2 h3"
    using p2 k2 capability_step_others [OF s3] by simp_all
  show ?thesis
    using p1 k2 t3 p3 k3 by (simp add: res seat_consistent_def)
qed

lemma Seat_ctor_consistent:
  "seat_consistent (Seat_ctor seat shm compositor enable_cursor version, seat_heap_init)"
  by (simp add: seat_consistent_def owns_def live_of_def Seat_ctor_def seat_heap_init_def)

lemma live_handlers_owns:
  "owns dev cur h \<Longrightarrow> live_handlers dev h = (if cur = None then 0 else 1)"
  by (auto simp: owns_def live_of_def live_handlers_def)

lemma deliver_capabilities_consistent:
  assumes "seat_consistent s" and "deliver_capabilities cs s = Inr s'"
  shows "seat_consistent s'"
  using assms
proof (induction cs arbitrary: s)
  case Nil
  then show ?case by simp
next
  case (Cons c cs)
  obtain obj h where s: "s = (obj, h)" by (cases s)
  from Cons.prems(2) obtain obj1 h1 where st: "handle_capabilities c (obj, h) = Inr (obj1, h1)"
    and rest: "deliver_capabilities cs (obj1, h1) = Inr s'"
    by (auto simp: s split: sum.splits)
  have "seat_consistent (obj1, h1)"
    using handle_capabilities_consistent [OF _ st] Cons.prems(1) s by simp
  then show ?case using Cons.IH rest by blast
qed

lemma deliver_capabilities_snoc:
  "deliver_capabilities (cs @ [caps]) s =
     (case deliver_capabilities cs s of
        Inl err \<Rightarrow> Inl err
      | Inr s' \<Rightarrow> handle_capabilities caps s')"
  by (induction cs arbitrary: s) (simp_all split: sum.splits)

text \<open>
  Whenever the delivery of a sequence returns, the handlers are as the last mask says,
  and the heap holds one live handler of a kind when the Seat owns one and none
  otherwise: \<^verbatim>\<open>handle_capabilities\<close> itself constructs no second handler.
\<close>

lemma deliver_capabilities_handlers:
  assumes "deliver_capabilities (cs @ [caps])
             (Seat_ctor seat shm compositor enable_cursor version, seat_heap_init) = Inr (obj, h)"
  shows "Seat_capabilities obj = caps
     \<and> (Seat_pointer obj \<noteq> None \<longleftrightarrow> caps AND WL_SEAT_CAPABILITY_POINTER \<noteq> 0)
     \<and> (Seat_keyboard obj \<noteq> None \<longleftrightarrow> caps AND WL_SEAT_CAPABILITY_KEYBOARD \<noteq> 0)
     \<and> (Seat_touch obj \<noteq> None \<longleftrightarrow> caps AND WL_SEAT_CAPABILITY_TOUCH \<noteq> 0)
     \<and> live_handlers Pointer h = (if Seat_pointer obj = None then 0 else 1)
     \<and> live_handlers Keyboard h = (if Seat_keyboard obj = None then 0 else 1)
     \<and> live_handlers Touch h = (if Seat_touch obj = None then 0 else 1)"
proof -
  from assms obtain obj0 h0 where s0: "deliver_capabilities cs
      (Seat_ctor seat shm compositor enable_cursor version, seat_heap_init) = Inr (obj0, h0)"
    and step: "handle_capabilities caps (obj0, h0) = Inr (obj, h)"
    by (auto simp: deliver_capabilities_snoc split: sum.splits)
  have c0: "seat_consistent (obj0, h0)"
    using deliver_capabilities_consistent [OF Seat_ctor_consistent s0] .
  have r: "seat_consistent (obj, h) \<and> Seat_capabilities obj = caps
     \<and> (Seat_pointer obj \<noteq> None \<longleftrightarrow> caps AND WL_SEAT_CAPABILITY_POINTER \<noteq> 0)
     \<and> (Seat_keyboard obj \<noteq> None \<longleftrightarrow> caps AND WL_SEAT_CAPABILITY_KEYBOARD \<noteq> 0)
     \<and> (Seat_touch obj \<noteq> None \<longleftrightarrow> caps AND WL_SEAT_CAPABILITY_TOUCH \<noteq> 0)"
    using handle_capabilities_consistent [OF c0 step] .
  then have "owns Pointer (Seat_pointer obj) h" "owns Keyboard (Seat_keyboard obj) h"
    "owns Touch (Seat_touch obj) h"
    by (simp_all add: seat_consistent_def)
  then show ?thesis
    using r by (simp add: live_handlers_owns)
qed

text \<open>
  Claim C1, at the input where the code departs from it. The first notification
  advertises the pointer: the Pointer handler is constructed around the proxy 1, and
  one live handler exists. The second notification withdraws the pointer:
  \<^verbatim>\<open>pointer_.reset()\<close> runs \<^verbatim>\<open>~Pointer\<close>, which releases the proxy and then destroys the
  proxy it has just freed. Processing the notification does not come to an end in
  which the set of handlers could match the mask.
\<close>

theorem Seat_withdrawal_destroys_freed_proxy:
  "handle_capabilities WL_SEAT_CAPABILITY_POINTER (Seat_ctor 1 2 3 True 5, seat_heap_init)
     = Inr seat_with_pointer
   \<and> live_handlers Pointer (snd seat_with_pointer) = 1
   \<and> handle_capabilities 0 seat_with_pointer = Inl (Destroy_of_freed_proxy Pointer 1)
   \<and> deliver_capabilities [WL_SEAT_CAPABILITY_POINTER, 0] (Seat_ctor 1 2 3 True 5, seat_heap_init)
       = Inl (Destroy_of_freed_proxy Pointer 1)"
  by (simp add: handle_capabilities_def handle_pointer_capability_def
      handle_keyboard_capability_def handle_touch_capability_def construct_def destroy_fails
      Seat_ctor_def seat_heap_init_def seat_with_pointer_def live_handlers_def
      WL_SEAT_CAPABILITY_POINTER_def WL_SEAT_CAPABILITY_KEYBOARD_def
      WL_SEAT_CAPABILITY_TOUCH_def)

section \<open>Properties of XdgWm\<close>

subsection \<open>Toplevel configure\<close>

lemma toplevel_states_loop_flags:
  "XdgWm_fullscreen (toplevel_states_loop states w) \<longleftrightarrow>
     XdgWm_fullscreen w \<or> XDG_TOPLEVEL_STATE_FULLSCREEN \<in> set states"
  "XdgWm_maximized (toplevel_states_loop states w) \<longleftrightarrow>
     XdgWm_maximized w \<or> XDG_TOPLEVEL_STATE_MAXIMIZED \<in> set states"
  "XdgWm_resize (toplevel_states_loop states w) \<longleftrightarrow>
     XdgWm_resize w \<or> XDG_TOPLEVEL_STATE_RESIZING \<in> set states"
  "XdgWm_activated (toplevel_states_loop states w) \<longleftrightarrow>
     XdgWm_activated w \<or> XDG_TOPLEVEL_STATE_ACTIVATED \<in> set states"
  by (induction states arbitrary: w;
      auto simp: toplevel_state_case_def XDG_TOPLEVEL_STATE_FULLSCREEN_def
        XDG_TOPLEVEL_STATE_MAXIMIZED_def XDG_TOPLEVEL_STATE_RESIZING_def
        XDG_TOPLEVEL_STATE_ACTIVATED_def)+

lemma toplevel_states_loop_others:
  "XdgWm_geometry (toplevel_states_loop states w) = XdgWm_geometry w"
  "XdgWm_window_size (toplevel_states_loop states w) = XdgWm_window_size w"
  "XdgWm_wait_for_configure (toplevel_states_loop states w) = XdgWm_wait_for_configure w"
  "XdgWm_running (toplevel_states_loop states w) = XdgWm_running w"
  by (induction states arbitrary: w; simp add: toplevel_state_case_def)+

lemma xdg_fullscreen_800_600_fields:
  "XdgWm_geometry xdg_fullscreen_800_600 = (800, 600)"
  "XdgWm_window_size xdg_fullscreen_800_600 = (640, 480)"
  by (simp_all add: xdg_fullscreen_800_600_def handle_toplevel_configure_def Let_def
      toplevel_state_case_def XdgWm_ctor_def)

text \<open>
  Claim C3 as stated fails in its last part. A fullscreen window with geometry
  800 x 600 and nominal size 640 x 480 receives a configure event with the size
  -1 x 5 and the state fullscreen. Neither dimension is zero and not both are positive,
  yet the geometry is not reset to the nominal size: it stays 800 x 600.
\<close>

theorem handle_toplevel_configure_reset_counterexample:
  "XdgWm_window_size
     (handle_toplevel_configure (- 1) 5 [XDG_TOPLEVEL_STATE_FULLSCREEN] xdg_fullscreen_800_600)
     = (640, 480)
   \<and> XdgWm_geometry
     (handle_toplevel_configure (- 1) 5 [XDG_TOPLEVEL_STATE_FULLSCREEN] xdg_fullscreen_800_600)
     = (800, 600)"
  by (simp add: handle_toplevel_configure_def Let_def toplevel_state_case_def
      xdg_fullscreen_800_600_fields toplevel_states_loop_others)

text \<open>
  Claim C3, amended. If the delivered width or height is zero, the call changes
  nothing. Otherwise each of the four flags fullscreen, maximized, resizing and
  activated is set exactly when its value occurs in the delivered state array; the
  geometry becomes the delivered size when both dimensions are positive; when a
  dimension is negative, the geometry is reset to the nominal window size if the
  window is neither fullscreen nor maximized, and is left as it was if it is. The
  nominal size itself becomes the delivered size when both dimensions are positive and
  the window is neither fullscreen nor maximized, and is left as it was otherwise.
\<close>

theorem handle_toplevel_configure_spec:
  "(width = 0 \<or> height = 0 \<longrightarrow> handle_toplevel_configure width height states w = w)
   \<and> (width \<noteq> 0 \<and> height \<noteq> 0 \<longrightarrow>
        (let w' = handle_toplevel_configure width height states w;
             floating = (XDG_TOPLEVEL_STATE_FULLSCREEN \<notin> set states
                         \<and> XDG_TOPLEVEL_STATE_MAXIMIZED \<notin> set states)
         in (XdgWm_fullscreen w' \<longleftrightarrow> XDG_TOPLEVEL_STATE_FULLSCREEN \<in> set states)
          \<and> (XdgWm_maximized w' \<longleftrightarrow> XDG_TOPLEVEL_STATE_MAXIMIZED \<in> set states)
          \<and> (XdgWm_resize w' \<longleftrightarrow> XDG_TOPLEVEL_STATE_RESIZING \<in> set states)
          \<and> (XdgWm_activated w' \<longleftrightarrow> XDG_TOPLEVEL_STATE_ACTIVATED \<in> set states)
          \<and> XdgWm_geometry w' =
              (if 0 < width \<and> 0 < height then (width, height)
               else if floating then XdgWm_window_size w
               else XdgWm_geometry w)
          \<and> XdgWm_window_size w' =
              (if 0 < width \<and> 0 < height \<and> floating then (width, height)
               else XdgWm_window_size w)))"
  by (simp add: handle_toplevel_configure_def Let_def toplevel_states_loop_flags
      toplevel_states_loop_others)

theorem handle_toplevel_configure_spec_witness:
  "handle_toplevel_configure 0 0 [XDG_TOPLEVEL_STATE_MAXIMIZED] xdg_fullscreen_800_600
     = xdg_fullscreen_800_600
   \<and> XdgWm_geometry
       (handle_toplevel_configure 1024 768 [XDG_TOPLEVEL_STATE_ACTIVATED] xdg_fullscreen_800_600)
       = (1024, 768)
   \<and> \<not> XdgWm_fullscreen
       (handle_toplevel_configure 1024 768 [XDG_TOPLEVEL_STATE_ACTIVATED] xdg_fullscreen_800_600)
   \<and> XdgWm_activated
       (handle_toplevel_configure 1024 768 [XDG_TOPLEVEL_STATE_ACTIVATED] xdg_fullscreen_800_600)
   \<and> XdgWm_geometry
       (handle_toplevel_configure (- 1) 5 [XDG_TOPLEVEL_STATE_ACTIVATED] xdg_fullscreen_800_600)
       = (640, 480)
   \<and> XdgWm_geometry
       (handle_toplevel_configure (- 1) 5 [XDG_TOPLEVEL_STATE_MAXIMIZED] xdg_fullscreen_800_600)
       = (800, 600)"
  using handle_toplevel_configure_spec
      [of 0 0 "[XDG_TOPLEVEL_STATE_MAXIMIZED]" xdg_fullscreen_800_600]
    handle_toplevel_configure_spec
      [of 1024 768 "[XDG_TOPLEVEL_STATE_ACTIVATED]" xdg_fullscreen_800_600]
    handle_toplevel_configure_spec
      [of "- 1" 5 "[XDG_TOPLEVEL_STATE_ACTIVATED]" xdg_fullscreen_800_600]
    handle_toplevel_configure_spec
      [of "- 1" 5 "[XDG_TOPLEVEL_STATE_MAXIMIZED]" xdg_fullscreen_800_600]
  by (simp add: Let_def xdg_fullscreen_800_600_fields XDG_TOPLEVEL_STATE_FULLSCREEN_def
      XDG_TOPLEVEL_STATE_MAXIMIZED_def XDG_TOPLEVEL_STATE_ACTIVATED_def)

subsection \<open>The flag that gates the first presentation\<close>

lemma registry_handle_global_wait:
  "XdgWm_wait_for_configure (fst (registry_handle_global registry name interface version s))
     = XdgWm_wait_for_configure (fst s)"
  by (cases s) (simp add: registry_handle_global_def fresh_def send_def Let_def)

lemma handle_toplevel_configure_wait:
  "XdgWm_wait_for_configure (handle_toplevel_configure width height states w)
     = XdgWm_wait_for_configure w"
  by (simp add: handle_toplevel_configure_def Let_def toplevel_states_loop_others)

lemma xdg_dispatch_wait:
  "XdgWm_wait_for_configure (fst (xdg_dispatch e s))
     \<longleftrightarrow> XdgWm_wait_for_configure (fst s) \<and> \<not> is_surface_configure e"
proof (cases s)
  case (Pair w c)
  then show ?thesis
    by (cases e)
      (simp_all add: registry_handle_global_wait registry_handle_global_remove_def
        xdg_wm_base_ping_def handle_xdg_surface_configure_def Let_def
        handle_toplevel_configure_wait handle_toplevel_close_def)
qed

lemma xdg_run_wait:
  "XdgWm_wait_for_configure (fst (xdg_run evs s))
     \<longleftrightarrow> XdgWm_wait_for_configure (fst s) \<and> (\<forall>e \<in> set evs. \<not> is_surface_configure e)"
  by (induction evs arbitrary: s) (auto simp: xdg_dispatch_wait)

text \<open>
  Claim C9. The constructor sets \<^verbatim>\<open>wait_for_configure_\<close>. After any sequence of events
  delivered to the constructed object the flag is still set if and only if the
  sequence holds no surface-configure event: every other handler (registry global and
  global-remove, ping, toplevel configure, toplevel close) leaves the flag as it
  finds it. The surface-configure handler sends the acknowledgement on the delivered
  surface with the delivered serial, and clears the flag.
\<close>

theorem wait_for_configure_cleared_only_by_surface_configure:
  "XdgWm_wait_for_configure (XdgWm_ctor registry base_surface)
   \<and> (XdgWm_wait_for_configure (fst (xdg_run evs (XdgWm_ctor registry base_surface, c)))
        \<longleftrightarrow> (\<forall>e \<in> set evs. \<not> is_surface_configure e))
   \<and> (\<forall>e s. \<not> is_surface_configure e \<longrightarrow>
         XdgWm_wait_for_configure (fst (xdg_dispatch e s)) = XdgWm_wait_for_configure (fst s))
   \<and> xdg_dispatch (Surface_configure xdg_surface serial) (w, c)
       = (w\<lparr>XdgWm_wait_for_configure := False\<rparr>, send (Ack_configure xdg_surface serial) c)"
proof -
  have ctor: "XdgWm_wait_for_configure (XdgWm_ctor registry base_surface)"
    by (simp add: XdgWm_ctor_def)
  have run: "XdgWm_wait_for_configure (fst (xdg_run evs (XdgWm_ctor registry base_surface, c)))
      \<longleftrightarrow> (\<forall>e \<in> set evs. \<not> is_surface_configure e)"
    using ctor by (simp add: xdg_run_wait)
  have others: "\<forall>e s. \<not> is_surface_configure e \<longrightarrow>
      XdgWm_wait_for_configure (fst (xdg_dispatch e s)) = XdgWm_wait_for_configure (fst s)"
    by (simp add: xdg_dispatch_wait)
  have ack: "xdg_dispatch (Surface_configure xdg_surface serial) (w, c)
      = (w\<lparr>XdgWm_wait_for_configure := False\<rparr>, send (Ack_configure xdg_surface serial) c)"
    by (simp add: handle_xdg_surface_configure_def Let_def)
  from ctor run others ack show ?thesis by blast
qed

theorem wait_for_configure_cleared_only_by_surface_configure_witness:
  "XdgWm_wait_for_configure
     (fst (xdg_run [Registry_global 1 7 ''xdg_wm_base'' 6, Wm_base_ping 3 40,
                    Toplevel_configure 640 480 [XDG_TOPLEVEL_STATE_ACTIVATED], Toplevel_close]
             (XdgWm_ctor 1 2, xdg_conn_init)))
   \<and> \<not> XdgWm_wait_for_configure
     (fst (xdg_run [Registry_global 1 7 ''xdg_wm_base'' 6,
                    Toplevel_configure 640 480 [XDG_TOPLEVEL_STATE_ACTIVATED],
                    Surface_configure 4 41]
             (XdgWm_ctor 1 2, xdg_conn_init)))
   \<and> xc_requests (snd (xdg_dispatch (Surface_configure 4 41) (XdgWm_ctor 1 2, xdg_conn_init)))
       = [Ack_configure 4 41]"
proof -
  let ?quiet = "[Registry_global 1 7 ''xdg_wm_base'' 6, Wm_base_ping 3 40,
                 Toplevel_configure 640 480 [XDG_TOPLEVEL_STATE_ACTIVATED], Toplevel_close]"
  let ?acked = "[Registry_global 1 7 ''xdg_wm_base'' 6,
                 Toplevel_configure 640 480 [XDG_TOPLEVEL_STATE_ACTIVATED],
                 Surface_configure 4 41]"
  have "\<forall>e \<in> set ?quiet. \<not> is_surface_configure e"
    by simp
  then have quiet: "XdgWm_wait_for_configure
      (fst (xdg_run ?quiet (XdgWm_ctor 1 2, xdg_conn_init)))"
    using wait_for_configure_cleared_only_by_surface_configure
      [of 1 2 ?quiet xdg_conn_init 4 41 "XdgWm_ctor 1 2"]
    by blast
  have "\<not> (\<forall>e \<in> set ?acked. \<not> is_surface_configure e)"
    by simp
  then have acked: "\<not> XdgWm_wait_for_configure
      (fst (xdg_run ?acked (XdgWm_ctor 1 2, xdg_conn_init)))"
    using wait_for_configure_cleared_only_by_surface_configure
      [of 1 2 ?acked xdg_conn_init 4 41 "XdgWm_ctor 1 2"]
    by blast
  have "xdg_dispatch (Surface_configure 4 41) (XdgWm_ctor 1 2, xdg_conn_init)
      = ((XdgWm_ctor 1 2)\<lparr>XdgWm_wait_for_configure := False\<rparr>,
         send (Ack_configure 4 41) xdg_conn_init)"
    using wait_for_configure_cleared_only_by_surface_configure
      [of 1 2 ?quiet xdg_conn_init 4 41 "XdgWm_ctor 1 2"]
    by blast
  then have ack: "xc_requests
      (snd (xdg_dispatch (Surface_configure 4 41) (XdgWm_ctor 1 2, xdg_conn_init)))
      = [Ack_configure 4 41]"
    by (simp add: send_def xdg_conn_init_def)
  from quiet acked ack show ?thesis by blast
qed

section \<open>Properties of Window\<close>

text \<open>
  With \<^verbatim>\<open>wl_callback_\<close> null, \<^verbatim>\<open>stop_frames\<close> changes nothing.
\<close>

lemma stop_frames_null:
  "Window_wl_callback obj = nullptr \<Longrightarrow> stop_frames (obj, w) = Inr (obj, w)"
  by (simp add: stop_frames_def)

lemma stop_frames_trace:
  assumes "stop_frames (obj, w) = Inr (obj', w')"
  shows "obj' = obj \<and> draw_invocations (ww_trace w') = draw_invocations (ww_trace w)"
  using assms
  by (auto simp: stop_frames_def wl_callback_destroy_def draw_invocations_def
      split: if_splits sum.splits)

lemma on_frame_nullptr:
  assumes "on_frame nullptr time (obj, w) = Inr (obj', w')"
  shows "draw_invocations (ww_trace w') =
       draw_invocations (ww_trace w) + (if Window_draw_callback obj then 1 else 0)
     \<and> Window_wl_callback obj' = ww_next w
     \<and> ww_callbacks w' = ww_callbacks w @ [ww_next w]"
  using assms
  by (auto simp: on_frame_def Let_def wl_surface_frame_def log_action_def draw_invocations_def
      split: prod.splits)

text \<open>
  \<^verbatim>\<open>start_frames\<close> returns whenever \<^verbatim>\<open>wl_callback_\<close> is null or names a proxy that
  exists, and then the registered draw callback has run exactly once more, inside the
  call, and one new callback is pending.
\<close>

lemma start_frames_returns:
  assumes "Window_wl_callback obj = nullptr \<or> Window_wl_callback obj \<in> set (ww_callbacks w)"
  shows "\<exists>s'. start_frames (obj, w) = Inr s'"
  using assms
  by (auto simp: start_frames_def stop_frames_def wl_callback_destroy_def on_frame_def Let_def
      split: prod.splits)

lemma start_frames_draws_once:
  assumes "start_frames (obj, w) = Inr (obj', w')" and "Window_draw_callback obj"
  shows "draw_invocations (ww_trace w') = Suc (draw_invocations (ww_trace w))"
proof -
  obtain obj1 w1 where s1: "stop_frames (obj, w) = Inr (obj1, w1)"
    and f: "on_frame nullptr 0 (obj1, w1) = Inr (obj', w')"
    using assms(1) by (auto simp: start_frames_def split: sum.splits)
  from stop_frames_trace [OF s1] on_frame_nullptr [OF f] assms(2)
  show ?thesis by simp
qed

text \<open>
  From every state in which \<^verbatim>\<open>wl_callback_\<close> is not null, a \<^verbatim>\<open>stop_frames\<close> that
  succeeds is followed by one that destroys the freed proxy.
\<close>

lemma stop_frames_after_stop_frames:
  assumes "Window_wl_callback obj \<noteq> nullptr" and "stop_frames (obj, w) = Inr s'"
  shows "stop_frames s' = Inl (Destroy_of_freed_callback (Window_wl_callback obj))"
proof -
  from assms have "s' = (obj, w\<lparr>ww_callbacks := removeAll (Window_wl_callback obj) (ww_callbacks w),
      ww_trace := ww_trace w @ [Callback_destroyed (Window_wl_callback obj)]\<rparr>)"
    by (auto simp: stop_frames_def wl_callback_destroy_def split: if_splits)
  then show ?thesis
    using assms(1) by (simp add: stop_frames_def wl_callback_destroy_def)
qed

text \<open>
  Claim C4, at the input where the code departs from it. The constructor's
  \<^verbatim>\<open>start_frames\<close> invokes the draw callback once (with time 0) and leaves the callback
  proxy 1 pending. A first \<^verbatim>\<open>stop_frames\<close> destroys the proxy, so that no subscription
  is outstanding, but \<^verbatim>\<open>wl_callback_\<close> still holds 1. A second \<^verbatim>\<open>stop_frames\<close> is
  therefore not a no-op: it calls \<^verbatim>\<open>wl_callback_destroy\<close> on the freed proxy. The
  destructor of \<^verbatim>\<open>WindowManager\<close>, followed by the destructor of its base class
  \<^verbatim>\<open>Window\<close>, is this very sequence: destroying a \<^verbatim>\<open>WindowManager\<close> just constructed
  destroys its pending proxy 2 twice.
\<close>

theorem stop_frames_twice_destroys_freed_callback:
  "Window_ctor 7 XDG True window_world_init = Inr window_framing
   \<and> draw_invocations (ww_trace (snd window_framing)) = 1
   \<and> stop_frames window_framing = Inr window_stopped
   \<and> ww_callbacks (snd window_stopped) = []
   \<and> stop_frames window_stopped = Inl (Destroy_of_freed_callback 1)
   \<and> WindowManager_ctor 7 NONE window_world_init = Inr window_manager_framing
   \<and> WindowManager_dtor window_manager_framing = Inl (Destroy_of_freed_callback 2)"
  by (simp add: Window_ctor_def WindowManager_ctor_def start_frames_def stop_frames_def
      on_frame_def Let_def wl_callback_destroy_def wl_surface_frame_def log_action_def
      window_world_init_def window_framing_def window_stopped_def window_manager_framing_def
      WindowManager_dtor_def Window_dtor_def draw_invocations_def nullptr_def)

section \<open>Properties of Cursor\<close>

lemmas request_defs =
  wl_pointer_set_cursor_def wl_surface_attach_def wl_surface_damage_def wl_surface_commit_def
  and_then_def returning_def

lemma cursor_name_of_kind_None:
  "cursor_name_of_kind kind = None
     \<longleftrightarrow> kind \<notin> {''basic'', ''click'', ''text'', ''forbidden''}"
  by (simp add: cursor_name_of_kind_def)

text \<open>
  With \<^verbatim>\<open>wl_pointer_\<close> and \<^verbatim>\<open>wl_surface_\<close> not null, \<^verbatim>\<open>enable\<close> does what is claimed of it:
  disabled, it commits the empty cursor and returns true; enabled, it commits the
  image of a valid kind with its hot spot and returns true; and it returns false
  exactly when it is enabled and the kind is unknown, the theme has no such image,
  or the image has no buffer.
\<close>

lemma enable_disabled:
  assumes "\<not> Cursor_enable obj"
    and "Cursor_wl_pointer obj \<noteq> nullptr" and "Cursor_wl_surface obj \<noteq> nullptr"
  shows "enable parent obj device kind =
     Inr (True, [Pointer_set_cursor (Cursor_wl_pointer obj) (get_serial parent)
                   (Cursor_wl_surface obj) 0 0,
                 Surface_damage (Cursor_wl_surface obj) 0 0 0 0,
                 Surface_commit (Cursor_wl_surface obj)])"
  using assms by (simp add: enable_def request_defs)

lemma enable_disabled_null:
  assumes "\<not> Cursor_enable obj"
    and "Cursor_wl_pointer obj = nullptr \<or> Cursor_wl_surface obj = nullptr"
  shows "isl (enable parent obj device kind)"
  using assms by (auto simp: enable_def request_defs)

lemma enable_image:
  assumes "Cursor_enable obj" and "Cursor_wl_pointer obj \<noteq> nullptr"
    and "cursor_name_of_kind kind = Some name" and "Cursor_theme obj name = Some cursor"
    and "img_buffer (images0 cursor) \<noteq> nullptr" and "Cursor_wl_surface obj \<noteq> nullptr"
  shows "enable parent obj device kind =
     Inr (True, [Pointer_set_cursor (Cursor_wl_pointer obj) (get_serial parent)
                   (Cursor_wl_surface obj)
                   (img_hotspot_x (images0 cursor)) (img_hotspot_y (images0 cursor)),
                 Surface_attach (Cursor_wl_surface obj) (img_buffer (images0 cursor)) 0 0,
                 Surface_damage (Cursor_wl_surface obj) 0 0
                   (img_width (images0 cursor)) (img_height (images0 cursor)),
                 Surface_commit (Cursor_wl_surface obj)])"
  using assms by (simp add: enable_def request_defs Let_def)

lemma enable_false_iff:
  assumes "Cursor_wl_pointer obj \<noteq> nullptr" and "Cursor_wl_surface obj \<noteq> nullptr"
  shows "(\<exists>sent. enable parent obj device kind = Inr (False, sent)) \<longleftrightarrow>
      Cursor_enable obj
      \<and> (kind \<notin> {''basic'', ''click'', ''text'', ''forbidden''}
          \<or> (\<exists>name. cursor_name_of_kind kind = Some name \<and> Cursor_theme obj name = None)
          \<or> (\<exists>name cursor. cursor_name_of_kind kind = Some name
                \<and> Cursor_theme obj name = Some cursor
                \<and> img_buffer (images0 cursor) = nullptr))"
proof -
  have kinds: "kind \<notin> {''basic'', ''click'', ''text'', ''forbidden''}
      \<longleftrightarrow> cursor_name_of_kind kind = None"
    by (simp add: cursor_name_of_kind_None)
  show ?thesis
    unfolding kinds using assms
    by (auto simp: enable_def request_defs Let_def split: option.splits)
qed


section \<open>Properties of WindowManager::dispatch\<close>

text \<open>Within the range of \<^verbatim>\<open>int\<close> the machine operations are the arithmetic ones.\<close>

lemma sint_add_in_range:
  fixes a b :: c_int
  assumes "0 \<le> sint a" and "0 \<le> sint b" and "sint a + sint b \<le> INT_MAX"
  shows "sint (a + b) = sint a + sint b"
proof -
  have "- (2 ^ 31) \<le> sint a + sint b" using assms(1,2) by simp
  moreover have "sint a + sint b < 2 ^ 31" using assms(3) by (simp add: INT_MAX_def)
  ultimately show ?thesis
    by (simp add: sint_word_add signed_take_bit_int_eq_self)
qed

lemma sint_neg_positive:
  fixes e :: c_int
  assumes "0 < sint e"
  shows "sint (- e) = - sint e"
proof -
  have "sint e < 2 ^ 31" using sint_lt [of e] by simp
  then have "- (2 ^ 31) \<le> - sint e" "- sint e < 2 ^ 31" using assms by simp_all
  then show ?thesis
    by (simp add: sint_word_minus signed_take_bit_int_eq_self)
qed

lemma events_total_nonneg:
  "\<forall>n \<in> set ns. 0 \<le> sint n \<Longrightarrow> 0 \<le> events_total ns"
  by (induction ns) (simp_all add: events_total_def)

lemma prepare_read_loop_sint:
  assumes "\<forall>n \<in> set ns. 0 \<le> sint n" and "0 \<le> sint acc"
    and "sint acc + events_total ns \<le> INT_MAX"
  shows "sint (prepare_read_loop ns acc) = sint acc + events_total ns"
  using assms
proof (induction ns arbitrary: acc)
  case Nil
  then show ?case by (simp add: events_total_def)
next
  case (Cons n ns)
  have n: "0 \<le> sint n" and rest: "\<forall>m \<in> set ns. 0 \<le> sint m"
    using Cons.prems(1) by simp_all
  have tot: "events_total (n # ns) = sint n + events_total ns"
    by (simp add: events_total_def)
  have r0: "0 \<le> events_total ns" using rest by (rule events_total_nonneg)
  have "sint acc + sint n \<le> INT_MAX"
    using Cons.prems(3) tot r0 by simp
  then have step: "sint (acc + n) = sint acc + sint n"
    using Cons.prems(2) n by (simp add: sint_add_in_range)
  have "sint (prepare_read_loop ns (acc + n)) = sint (acc + n) + events_total ns"
    using rest step Cons.prems(2,3) n tot by (intro Cons.IH) simp_all
  then show ?case using step tot by simp
qed

lemma dispatch_cases:
  "dispatch timeout env =
     (if flush_failed env then - env_flush_errno env
      else if 0 < sint (env_poll env) then
        (if env_revents env AND POLLIN \<noteq> 0
         then prepare_read_loop (env_prepare_loop env) 0 + env_read_pending env
         else prepare_read_loop (env_prepare_loop env) 0)
      else if env_poll env = 0 then prepare_read_loop (env_prepare_loop env) 0
      else - env_poll_errno env)"
  unfolding dispatch_def flush_failed_def Let_def by (rule refl)

text \<open>
  Claim C5 as stated fails in two ways. When the first loop dispatches 2147483647
  events and then one more, the \<^verbatim>\<open>int\<close> sum wraps around: no call fails, \<^verbatim>\<open>poll\<close>
  returns zero with a timeout of 0, and \<^verbatim>\<open>dispatch\<close> returns -2147483648. When a
  \<^verbatim>\<open>wl_display_dispatch_pending\<close> of the first loop reports a failure (-1), the flush
  succeeds and \<^verbatim>\<open>poll\<close> returns zero, \<^verbatim>\<open>dispatch\<close> returns -1, the sum of the results
  it added up.
\<close>

theorem dispatch_negative_count_counterexample:
  "env_prepare_loop env_count_overflow = [2147483647, 1]
   \<and> \<not> flush_failed env_count_overflow
   \<and> env_poll env_count_overflow = 0
   \<and> sint (dispatch 0 env_count_overflow) = - 2147483648
   \<and> \<not> flush_failed env_pending_failed
   \<and> env_poll env_pending_failed = 0
   \<and> sint (dispatch 0 env_pending_failed) = - 1"
  by (simp add: dispatch_def flush_failed_def env_count_overflow_def env_pending_failed_def)

text \<open>
  Claim C5, amended. Suppose that no \<^verbatim>\<open>wl_display_dispatch_pending\<close> call made by
  \<^verbatim>\<open>dispatch\<close> reports a failure (each returns a count, zero or more), that the counts
  together do not exceed \<^verbatim>\<open>INT_MAX\<close>, and that \<^verbatim>\<open>errno\<close> is positive after a failed
  flush or poll. Then \<^verbatim>\<open>dispatch\<close> returns a count, zero or more, whenever \<^verbatim>\<open>poll\<close> is
  reached and returns zero or returns ready without \<^verbatim>\<open>POLLIN\<close>, and this count is the
  number of events the first loop dispatched; and it returns a negative value
  exactly when the flush fails with an \<^verbatim>\<open>errno\<close> other than \<^verbatim>\<open>EAGAIN\<close> or \<^verbatim>\<open>poll\<close>
  itself fails, the value being the negated \<^verbatim>\<open>errno\<close> of the failed call.
\<close>

theorem dispatch_spec:
  assumes "\<forall>n \<in> set (env_prepare_loop env). 0 \<le> sint n"
    and "0 \<le> sint (env_read_pending env)"
    and "events_total (env_prepare_loop env) + sint (env_read_pending env) \<le> INT_MAX"
    and "sint (env_flush env) < 0 \<longrightarrow> 0 < sint (env_flush_errno env)"
    and "sint (env_poll env) < 0 \<longrightarrow> 0 < sint (env_poll_errno env)"
  shows "(\<not> flush_failed env
          \<and> (env_poll env = 0 \<or> 0 < sint (env_poll env) \<and> env_revents env AND POLLIN = 0) \<longrightarrow>
            0 \<le> sint (dispatch timeout env)
            \<and> sint (dispatch timeout env) = events_total (env_prepare_loop env))
     \<and> (sint (dispatch timeout env) < 0 \<longleftrightarrow> flush_failed env \<or> poll_failed env)
     \<and> (flush_failed env \<longrightarrow> sint (dispatch timeout env) = - sint (env_flush_errno env))
     \<and> (poll_failed env \<longrightarrow> sint (dispatch timeout env) = - sint (env_poll_errno env))"
proof -
  let ?loop = "prepare_read_loop (env_prepare_loop env) 0"
  have tot0: "0 \<le> events_total (env_prepare_loop env)"
    using assms(1) by (rule events_total_nonneg)
  have "sint (0::c_int) + events_total (env_prepare_loop env) \<le> INT_MAX"
    using assms(2,3) by simp
  then have loop: "sint ?loop = events_total (env_prepare_loop env)"
    using prepare_read_loop_sint [OF assms(1), of 0] by simp
  have "sint ?loop + sint (env_read_pending env) \<le> INT_MAX"
    using loop assms(3) by simp
  then have rd: "sint (?loop + env_read_pending env)
      = events_total (env_prepare_loop env) + sint (env_read_pending env)"
    using loop tot0 assms(2) by (simp add: sint_add_in_range)
  have fl: "flush_failed env \<Longrightarrow> sint (- env_flush_errno env) = - sint (env_flush_errno env)"
    using assms(4) by (simp add: flush_failed_def sint_neg_positive)
  have pl: "sint (env_poll env) < 0 \<Longrightarrow> sint (- env_poll_errno env) = - sint (env_poll_errno env)"
    using assms(5) by (simp add: sint_neg_positive)
  have zero: "env_poll env = 0 \<Longrightarrow> sint (env_poll env) = 0"
    by simp
  have nz: "\<not> 0 < sint (env_poll env) \<Longrightarrow> env_poll env \<noteq> 0 \<Longrightarrow> sint (env_poll env) < 0"
    by (metis linorder_neqE_linordered_idom signed_eq_0_iff)
  show ?thesis
  proof (cases "flush_failed env")
    case True
    then have val: "dispatch timeout env = - env_flush_errno env"
      by (simp add: dispatch_cases)
    have "0 < sint (env_flush_errno env)"
      using True assms(4) by (simp add: flush_failed_def)
    then show ?thesis
      using True val fl by (simp add: poll_failed_def)
  next
    case False
    consider (ready) "0 < sint (env_poll env)" | (timeout) "env_poll env = 0"
      | (failed) "sint (env_poll env) < 0"
      using nz by blast
    then show ?thesis
    proof cases
      case ready
      then have val: "dispatch timeout env =
          (if env_revents env AND POLLIN \<noteq> 0 then ?loop + env_read_pending env else ?loop)"
        using False by (simp add: dispatch_cases)
      have "env_poll env \<noteq> 0" using ready by auto
      then show ?thesis
        using False ready val loop rd tot0 assms(2) by (simp add: poll_failed_def)
    next
      case timeout
      then have val: "dispatch timeout env = ?loop"
        using False by (simp add: dispatch_cases)
      show ?thesis
        using False timeout val loop tot0 by (simp add: poll_failed_def)
    next
      case failed
      then have ne: "env_poll env \<noteq> 0" by auto
      then have val: "dispatch timeout env = - env_poll_errno env"
        using False failed by (simp add: dispatch_cases)
      have "0 < sint (env_poll_errno env)"
        using failed assms(5) by simp
      then show ?thesis
        using False failed ne val pl by (simp add: poll_failed_def)
    qed
  qed
qed

theorem dispatch_spec_witness:
  "sint (dispatch 0 env_poll_timeout) = 3 \<and> sint (dispatch 0 env_poll_error) = - 4"
proof -
  have timeout: "\<not> flush_failed env_poll_timeout \<and> env_poll env_poll_timeout = 0"
    by (simp add: flush_failed_def env_poll_timeout_def)
  have "sint (dispatch 0 env_poll_timeout) = events_total (env_prepare_loop env_poll_timeout)"
    using timeout dispatch_spec [of env_poll_timeout 0]
    by (simp add: env_poll_timeout_def EAGAIN_def events_total_def INT_MAX_def)
  then have a: "sint (dispatch 0 env_poll_timeout) = 3"
    by (simp add: env_poll_timeout_def events_total_def)
  have "poll_failed env_poll_error"
    by (simp add: poll_failed_def flush_failed_def env_poll_error_def)
  then have "sint (dispatch 0 env_poll_error) = - sint (env_poll_errno env_poll_error)"
    using dispatch_spec [of env_poll_error 0]
    by (simp add: env_poll_error_def events_total_def INT_MAX_def)
  then have b: "sint (dispatch 0 env_poll_error) = - 4"
    by (simp add: env_poll_error_def)
  from a b show ?thesis by simp
qed

end
